theory Spec2Isabelle
  imports Main
begin

section \<open>Python values, exceptions and the output log\<close>

text \<open>
  The extractor (\<^verbatim>\<open>load_api.py\<close>) works on parsed JSON. A JSON document is a Python
  value: \<^verbatim>\<open>None\<close>, a bool, a number, a string, a list or a dict. Numbers are modelled
  as integers (non-integral numbers are floating point and are left out), strings as
  character lists (one \<open>char\<close> per code point, ASCII case mapping), a dict as an
  association list read with \<open>map_of\<close>.
\<close>

datatype json =
    JNull
  | JBool bool
  | JInt int
  | JStr string
  | JArr "json list"
  | JObj "(string \<times> json) list"

datatype py_error =
    AttributeError
  | TypeError
  | IndexError
  | KeyError
  | RuntimeError string
  | FileNotFoundError string
  | ValueError string "string list"
  | SystemExit string

text \<open>
  Every line the programs print, one constructor per message of the source:
  \<^verbatim>\<open>[warn] fetch failed ...\<close> of \<^verbatim>\<open>fetch_json\<close>, the \<^verbatim>\<open>info\<close> lines of the extractor
  and the \<^verbatim>\<open>[load]\<close> lines of the loader.
\<close>

datatype log_line =
    Warn_fetch_failed json
  | Info_loading_season int
  | Info_fetched_teams_list
  | Info_rosters_fetching int nat nat
  | Info_built_player_roster nat
  | Info_week_fetching int
  | Info_no_events_found
  | Info_week_found int nat
  | Info_game_stats_processing "int option"
  | Info_game_stats_rows_built nat
  | Info_pruned_players nat nat
  | Info_wrote string nat
  | Info_rows nat nat nat nat nat
  | Info_done
  | Load_table_from string
  | Load_skipped nat
  | Load_inserted string nat
  | Load_done

text \<open>
  A computation either raises or returns, and prints lines while it runs: the result
  and the lines printed, in order. An exception keeps the lines printed before it.
\<close>

type_synonym 'a io = "(py_error + 'a) \<times> log_line list"

definition ret :: "'a \<Rightarrow> 'a io" where
  "ret x = (Inr x, [])"

definition raise :: "py_error \<Rightarrow> 'a io" where
  "raise e = (Inl e, [])"

definition info :: "log_line \<Rightarrow> unit io" where
  "info msg = (Inr (), [msg])"

definition bind :: "'a io \<Rightarrow> ('a \<Rightarrow> 'b io) \<Rightarrow> 'b io" where
  "bind m f =
     (case m of
        (Inl e, out) \<Rightarrow> (Inl e, out)
      | (Inr x, out) \<Rightarrow> (case f x of (r, out') \<Rightarrow> (r, out @ out')))"

text \<open>
  A \<^verbatim>\<open>for\<close> loop whose body appends rows to a list: the rows of every iteration, in
  order. An exception in one iteration ends the loop.
\<close>

fun for_rows :: "('a \<Rightarrow> 'b list io) \<Rightarrow> 'a list \<Rightarrow> 'b list io" where
  "for_rows body [] = ret []"
| "for_rows body (x # xs) =
     bind (body x) (\<lambda>rows. bind (for_rows body xs) (\<lambda>rest. ret (rows @ rest)))"

subsection \<open>Python's operations on values\<close>

text \<open>Truthiness (\<^verbatim>\<open>if x\<close>, \<^verbatim>\<open>not x\<close>, \<^verbatim>\<open>x or y\<close>).\<close>

fun truthy :: "json \<Rightarrow> bool" where
  "truthy JNull = False"
| "truthy (JBool b) = b"
| "truthy (JInt n) = (n \<noteq> 0)"
| "truthy (JStr s) = (s \<noteq> [])"
| "truthy (JArr xs) = (xs \<noteq> [])"
| "truthy (JObj kvs) = (kvs \<noteq> [])"

definition py_or :: "json \<Rightarrow> json \<Rightarrow> json" where
  "py_or a b = (if truthy a then a else b)"

text \<open>\<^verbatim>\<open>d.get(key, default)\<close>: only a dict has \<^verbatim>\<open>get\<close>.\<close>

fun get :: "json \<Rightarrow> string \<Rightarrow> json \<Rightarrow> json io" where
  "get (JObj kvs) k dflt = ret (case map_of kvs k of Some v \<Rightarrow> v | None \<Rightarrow> dflt)"
| "get _ k dflt = raise AttributeError"

text \<open>\<^verbatim>\<open>d.get(k1) or d.get(k2) or ... or default\<close>, evaluated left to right.\<close>

fun get_first :: "json \<Rightarrow> string list \<Rightarrow> json \<Rightarrow> json io" where
  "get_first d [] dflt = ret dflt"
| "get_first d (k # ks) dflt =
     bind (get d k JNull) (\<lambda>v. if truthy v then ret v else get_first d ks dflt)"

text \<open>
  \<^verbatim>\<open>for x in v\<close>: a list gives its elements, a string its characters, a dict its keys;
  nothing else is iterable.
\<close>

fun py_iter :: "json \<Rightarrow> json list io" where
  "py_iter (JArr xs) = ret xs"
| "py_iter (JStr s) = ret (map (\<lambda>c. JStr [c]) s)"
| "py_iter (JObj kvs) = ret (map (\<lambda>kv. JStr (fst kv)) kvs)"
| "py_iter _ = raise TypeError"

text \<open>
  \<^verbatim>\<open>v[:n]\<close>: a string or a list is sliced, anything else raises (a number cannot be
  indexed, and a dict has no slice among its keys).
\<close>

fun slice_to :: "nat \<Rightarrow> json \<Rightarrow> json io" where
  "slice_to n (JStr s) = ret (JStr (take n s))"
| "slice_to n (JArr xs) = ret (JArr (take n xs))"
| "slice_to n _ = raise TypeError"

subsection \<open>Strings\<close>

definition is_space :: "char \<Rightarrow> bool" where
  "is_space c = ((of_char c :: nat) \<in> {9, 10, 11, 12, 13, 28, 29, 30, 31, 32, 133, 160})"

definition is_digit :: "char \<Rightarrow> bool" where
  "is_digit c = (48 \<le> (of_char c :: nat) \<and> (of_char c :: nat) \<le> 57)"

definition upper_char :: "char \<Rightarrow> char" where
  "upper_char c =
     (if 97 \<le> (of_char c :: nat) \<and> (of_char c :: nat) \<le> 122
      then char_of ((of_char c :: nat) - 32) else c)"

text \<open>\<^verbatim>\<open>s.split()\<close>: the maximal runs of non-whitespace characters.\<close>

fun split_ws :: "string \<Rightarrow> string \<Rightarrow> string list" where
  "split_ws cur [] = (if cur = [] then [] else [cur])"
| "split_ws cur (c # cs) =
     (if is_space c then (if cur = [] then split_ws [] cs else cur # split_ws [] cs)
      else split_ws (cur @ [c]) cs)"

text \<open>\<^verbatim>\<open>s.split(sep)\<close> for a one-character separator: never the empty list.\<close>

fun split_on :: "char \<Rightarrow> string \<Rightarrow> string list" where
  "split_on sep [] = [[]]"
| "split_on sep (c # cs) =
     (if c = sep then [] # split_on sep cs
      else (case split_on sep cs of
              [] \<Rightarrow> [[c]]
            | w # ws \<Rightarrow> (c # w) # ws))"

definition strip :: "string \<Rightarrow> string" where
  "strip s = rev (dropWhile is_space (rev (dropWhile is_space s)))"

definition rstrip :: "char \<Rightarrow> string \<Rightarrow> string" where
  "rstrip ch s = rev (dropWhile (\<lambda>c. c = ch) (rev s))"

fun py_upper :: "json \<Rightarrow> string io" where
  "py_upper (JStr s) = ret (map upper_char s)"
| "py_upper _ = raise AttributeError"

fun py_split :: "json \<Rightarrow> string list io" where
  "py_split (JStr s) = ret (split_ws [] s)"
| "py_split _ = raise AttributeError"

fun py_strip :: "json \<Rightarrow> string io" where
  "py_strip (JStr s) = ret (strip s)"
| "py_strip _ = raise AttributeError"

fun py_split_on :: "char \<Rightarrow> json \<Rightarrow> string list io" where
  "py_split_on sep (JStr s) = ret (split_on sep s)"
| "py_split_on sep _ = raise AttributeError"

text \<open>
  \<^verbatim>\<open>int(s)\<close> for a string: surrounding whitespace, an optional sign, then decimal
  digits, where single underscores may stand between digits.
\<close>

fun parse_digits :: "nat \<Rightarrow> bool \<Rightarrow> string \<Rightarrow> nat option" where
  "parse_digits acc prev [] = (if prev then Some acc else None)"
| "parse_digits acc prev (c # cs) =
     (if is_digit c then parse_digits (10 * acc + ((of_char c :: nat) - 48)) True cs
      else if c = CHR ''_'' \<and> prev \<and> cs \<noteq> [] then parse_digits acc False cs
      else None)"

definition int_of_str :: "string \<Rightarrow> int option" where
  "int_of_str s =
     (case strip s of
        [] \<Rightarrow> None
      | c # cs \<Rightarrow>
          if c = CHR ''-'' then map_option (\<lambda>n. - int n) (parse_digits 0 False cs)
          else if c = CHR ''+'' then map_option int (parse_digits 0 False cs)
          else map_option int (parse_digits 0 False (c # cs)))"

text \<open>\<^verbatim>\<open>str(n)\<close> for an integer, as the f-strings of the URLs use it.\<close>

fun str_nat :: "nat \<Rightarrow> string" where
  "str_nat n =
     (if n < 10 then [char_of (48 + n)]
      else str_nat (n div 10) @ [char_of (48 + n mod 10)])"

definition str_int :: "int \<Rightarrow> string" where
  "str_int i = (if i < 0 then CHR ''-'' # str_nat (nat (- i)) else str_nat (nat i))"

section \<open>The extractor\<close>

subsection \<open>Remote calls\<close>

text \<open>
  The remote service: what a GET of a URL gives, \<open>None\<close> when the request fails, the
  status is an error or the body is not JSON. Within a run the service answers a
  request the same way each time it is asked.
\<close>

type_synonym net = "string \<Rightarrow> json option"

definition ESPN_SITE :: string where
  "ESPN_SITE = ''https://site.api.espn.com/apis''"

definition ESPN_CORE :: string where
  "ESPN_CORE = ''http://sports.core.api.espn.com/v2/sports/football/leagues/nfl''"

text \<open>
  \<^verbatim>\<open>fetch_json\<close>: every exception is caught, printed as a warning and turned into
  \<^verbatim>\<open>None\<close>. The argument is whatever the caller found under \<^verbatim>\<open>$ref\<close>; a request for
  something that is not a string fails inside the \<^verbatim>\<open>try\<close>.
\<close>

fun fetch_json :: "net \<Rightarrow> json \<Rightarrow> json io" where
  "fetch_json net (JStr url) =
     (case net url of
        Some v \<Rightarrow> ret v
      | None \<Rightarrow> bind (info (Warn_fetch_failed (JStr url))) (\<lambda>_. ret JNull))"
| "fetch_json net url = bind (info (Warn_fetch_failed url)) (\<lambda>_. ret JNull)"

text \<open>\<^verbatim>\<open>safe_int\<close>: \<^verbatim>\<open>int(value)\<close>, \<^verbatim>\<open>None\<close> when it raises.\<close>

fun safe_int :: "json \<Rightarrow> int option" where
  "safe_int (JInt n) = Some n"
| "safe_int (JBool b) = Some (if b then 1 else 0)"
| "safe_int (JStr s) = int_of_str s"
| "safe_int _ = None"

text \<open>\<^verbatim>\<open>if not pid\<close> for an \<^verbatim>\<open>Optional[int]\<close>: \<^verbatim>\<open>None\<close> and \<^verbatim>\<open>0\<close> are falsy.\<close>

fun truthy_int :: "int option \<Rightarrow> bool" where
  "truthy_int None = False"
| "truthy_int (Some n) = (n \<noteq> 0)"

definition split_name :: "json \<Rightarrow> (string \<times> string) io" where
  "split_name full_name =
     bind (py_strip (py_or full_name (JStr []))) (\<lambda>stripped.
       case split_ws [] stripped of
         [] \<Rightarrow> ret ([], [])
       | [p] \<Rightarrow> ret (p, [])
       | p # ps \<Rightarrow> ret (p, last ps))"

definition conf_div_mapping :: "(string \<times> string \<times> string) list" where
  "conf_div_mapping =
     [(''BUF'', ''AFC'', ''E''), (''MIA'', ''AFC'', ''E''), (''NE'', ''AFC'', ''E''), (''NYJ'', ''AFC'', ''E''),
      (''BAL'', ''AFC'', ''N''), (''CIN'', ''AFC'', ''N''), (''CLE'', ''AFC'', ''N''), (''PIT'', ''AFC'', ''N''),
      (''HOU'', ''AFC'', ''S''), (''IND'', ''AFC'', ''S''), (''JAX'', ''AFC'', ''S''), (''TEN'', ''AFC'', ''S''),
      (''DEN'', ''AFC'', ''W''), (''KC'', ''AFC'', ''W''), (''LAC'', ''AFC'', ''W''), (''LV'', ''AFC'', ''W''),
      (''DAL'', ''NFC'', ''E''), (''NYG'', ''NFC'', ''E''), (''PHI'', ''NFC'', ''E''), (''WAS'', ''NFC'', ''E''),
      (''WSH'', ''NFC'', ''E''),
      (''CHI'', ''NFC'', ''N''), (''DET'', ''NFC'', ''N''), (''GB'', ''NFC'', ''N''), (''MIN'', ''NFC'', ''N''),
      (''ATL'', ''NFC'', ''S''), (''CAR'', ''NFC'', ''S''), (''NO'', ''NFC'', ''S''), (''TB'', ''NFC'', ''S''),
      (''ARI'', ''NFC'', ''W''), (''LAR'', ''NFC'', ''W''), (''LA'', ''NFC'', ''W''), (''SF'', ''NFC'', ''W''),
      (''SEA'', ''NFC'', ''W'')]"

definition conf_div_from_abbr :: "string \<Rightarrow> string \<times> string" where
  "conf_div_from_abbr abbr =
     (case map_of conf_div_mapping (map upper_char abbr) of
        Some cd \<Rightarrow> cd
      | None \<Rightarrow> ([], []))"

subsection \<open>Teams\<close>

record team_row =
  TeamID :: "int option"
  TeamName :: json
  City :: string
  Conference :: string
  Division :: string

definition teams_url :: string where
  "teams_url = ESPN_SITE @ ''/site/v2/sports/football/nfl/teams''"

text \<open>
  The body of the innermost loop of \<^verbatim>\<open>load_teams\<close>: one row per entry. The city is
  \<^verbatim>\<open>(...).split()[0][:15]\<close>: the first word, and \<^verbatim>\<open>IndexError\<close> when there is none.
\<close>

definition team_of_entry :: "json \<Rightarrow> team_row io" where
  "team_of_entry entry =
     bind (get entry ''team'' (JObj [])) (\<lambda>team.
     bind (get_first team [''abbreviation''] (JStr [])) (\<lambda>a.
     bind (py_upper a) (\<lambda>abbr.
     case conf_div_from_abbr abbr of (conference, division) \<Rightarrow>
     bind (get team ''id'' JNull) (\<lambda>tid.
     bind (get_first team [''shortDisplayName'', ''displayName'', ''name''] (JStr [])) (\<lambda>nm.
     bind (slice_to 15 nm) (\<lambda>team_name.
     bind (get_first team [''location'', ''displayName''] (JStr [])) (\<lambda>loc.
     bind (py_split loc) (\<lambda>ws.
     case ws of
       [] \<Rightarrow> raise IndexError
     | w # _ \<Rightarrow>
         ret \<lparr>TeamID = safe_int tid, TeamName = team_name, City = take 15 w,
              Conference = conference, Division = division\<rparr>))))))))"

text \<open>The three nested loops of \<^verbatim>\<open>load_teams\<close>, from the innermost.\<close>

definition teams_of_league :: "json \<Rightarrow> team_row list io" where
  "teams_of_league league =
     bind (get league ''teams'' (JArr [])) (\<lambda>entries.
     bind (py_iter entries) (\<lambda>entries.
     for_rows (\<lambda>entry. bind (team_of_entry entry) (\<lambda>row. ret [row])) entries))"

definition teams_of_sport :: "json \<Rightarrow> team_row list io" where
  "teams_of_sport sport =
     bind (get sport ''leagues'' (JArr [])) (\<lambda>leagues.
     bind (py_iter leagues) (\<lambda>leagues.
     for_rows teams_of_league leagues))"

definition load_teams :: "net \<Rightarrow> team_row list io" where
  "load_teams net =
     bind (fetch_json net (JStr teams_url)) (\<lambda>data.
     if \<not> truthy data then raise (RuntimeError ''Could not fetch teams'')
     else
       bind (info Info_fetched_teams_list) (\<lambda>_.
       bind (get data ''sports'' (JArr [])) (\<lambda>sports.
       bind (py_iter sports) (\<lambda>sports.
       for_rows teams_of_sport sports))))"

subsection \<open>Rosters\<close>

text \<open>
  The rows of the five tables are records; a column that occurs in several tables
  (\<^verbatim>\<open>TeamID\<close>, \<^verbatim>\<open>PlayerID\<close>, \<^verbatim>\<open>GameID\<close>) carries the table's name in all but the
  first.
\<close>

record player_row =
  PlayerID :: int
  Fname :: string
  Lname :: string
  Position :: string
  Player_TeamID :: int

definition roster_url :: "int \<Rightarrow> string" where
  "roster_url team_id =
     ESPN_SITE @ ''/common/v3/sports/football/nfl/teams/'' @ str_int team_id @ ''/roster''"

text \<open>
  The body of the inner loop of \<^verbatim>\<open>load_roster\<close>: no row when \<^verbatim>\<open>pid\<close> is \<^verbatim>\<open>None\<close> or
  \<^verbatim>\<open>0\<close> (\<^verbatim>\<open>if not pid: continue\<close>). \<^verbatim>\<open>pos\<close> is \<^verbatim>\<open>player.get("position") or {}\<close>, and
  \<^verbatim>\<open>position\<close> its abbreviation when it is a dict, \<^verbatim>\<open>pos\<close> itself otherwise.
\<close>

definition player_of_athlete :: "int \<Rightarrow> json \<Rightarrow> player_row list io" where
  "player_of_athlete team_id player =
     bind (get player ''id'' JNull) (\<lambda>i.
     case safe_int i of
       None \<Rightarrow> ret []
     | Some pid \<Rightarrow>
         if pid = 0 then ret []
         else
           bind (get_first player [''fullName'', ''displayName''] (JStr [])) (\<lambda>full_name.
           bind (get_first player [''position''] (JObj [])) (\<lambda>pos.
           bind (case pos of JObj _ \<Rightarrow> get pos ''abbreviation'' JNull | _ \<Rightarrow> ret pos) (\<lambda>position.
           bind (split_name full_name) (\<lambda>names.
           bind (py_upper (py_or position (JStr []))) (\<lambda>up.
           ret [\<lparr>PlayerID = pid, Fname = take 15 (fst names), Lname = take 15 (snd names),
                 Position = take 4 up, Player_TeamID = team_id\<rparr>]))))))"

definition players_of_group :: "int \<Rightarrow> json \<Rightarrow> player_row list io" where
  "players_of_group team_id position_group =
     bind (get position_group ''athletes'' (JArr [])) (\<lambda>athletes.
     bind (py_iter athletes) (\<lambda>athletes.
     for_rows (player_of_athlete team_id) athletes))"

definition load_roster :: "net \<Rightarrow> int \<Rightarrow> player_row list io" where
  "load_roster net team_id =
     bind (fetch_json net (JStr (roster_url team_id))) (\<lambda>data.
     if \<not> truthy data then ret []
     else
       bind (get data ''positionGroups'' (JArr [])) (\<lambda>groups.
       bind (py_iter groups) (\<lambda>groups.
       for_rows (players_of_group team_id) groups)))"

text \<open>
  \<^verbatim>\<open>DataFrame.drop_duplicates(subset=[key])\<close>: of the rows with one key, the first stays.
\<close>

fun drop_duplicates :: "('a \<Rightarrow> 'k) \<Rightarrow> 'a list \<Rightarrow> 'a list" where
  "drop_duplicates key [] = []"
| "drop_duplicates key (x # xs) = x # drop_duplicates key (filter (\<lambda>y. key y \<noteq> key x) xs)"

text \<open>\<^verbatim>\<open>enumerate(xs, start=1)\<close>.\<close>

definition enumerate1 :: "'a list \<Rightarrow> (nat \<times> 'a) list" where
  "enumerate1 xs = zip [1 ..< Suc (length xs)] xs"

definition load_all_players :: "net \<Rightarrow> int list \<Rightarrow> player_row list io" where
  "load_all_players net team_ids =
     bind (for_rows (\<lambda>(idx, tid).
             bind (info (Info_rosters_fetching tid idx (length team_ids))) (\<lambda>_.
             load_roster net tid))
           (enumerate1 team_ids)) (\<lambda>rows.
     let df = drop_duplicates PlayerID rows in
     bind (info (Info_built_player_roster (length df))) (\<lambda>_.
     ret df))"

subsection \<open>Coaches\<close>

text \<open>
  \<^verbatim>\<open>parse_id_from_ref\<close>: the last path segment of the reference, up to a \<^verbatim>\<open>?\<close>, as an
  integer; \<^verbatim>\<open>None\<close> for a falsy reference and whenever the \<^verbatim>\<open>try\<close> block raises.
\<close>

definition parse_id_from_ref :: "json \<Rightarrow> int option" where
  "parse_id_from_ref ref =
     (if \<not> truthy ref then None
      else case ref of
        JStr s \<Rightarrow>
          (case rev (split_on CHR ''/'' (rstrip CHR ''/'' s)) of
             [] \<Rightarrow> None
           | seg # _ \<Rightarrow>
               (case split_on CHR ''?'' seg of
                  [] \<Rightarrow> None
                | h # _ \<Rightarrow> int_of_str h))
      | _ \<Rightarrow> None)"

record coach_row =
  CoachID :: "int option"
  LName :: json
  FName :: json
  Coach_TeamID :: int
  Role :: string

definition coach_list_url :: "int \<Rightarrow> int \<Rightarrow> string" where
  "coach_list_url season tid =
     ESPN_CORE @ ''/seasons/'' @ str_int season @ ''/teams/'' @ str_int tid @ ''/coaches''"

text \<open>
  The inner loop of \<^verbatim>\<open>load_coaches\<close>: the first item whose detail can be fetched gives
  the team's row, and the loop breaks.
\<close>

fun coach_items :: "net \<Rightarrow> int \<Rightarrow> json list \<Rightarrow> coach_row list io" where
  "coach_items net tid [] = ret []"
| "coach_items net tid (item # items) =
     bind (get item ''$ref'' JNull) (\<lambda>coach_ref.
     bind (if truthy coach_ref then fetch_json net coach_ref else ret JNull) (\<lambda>coach_data.
     if \<not> truthy coach_data then coach_items net tid items
     else
       bind (get coach_data ''id'' JNull) (\<lambda>cid.
       bind (get_first coach_data [''firstName''] (JStr [])) (\<lambda>fn.
       bind (slice_to 15 fn) (\<lambda>fname.
       bind (get_first coach_data [''lastName''] (JStr [])) (\<lambda>ln.
       bind (slice_to 15 ln) (\<lambda>lname.
       ret [\<lparr>CoachID = safe_int cid, LName = lname, FName = fname, Coach_TeamID = tid,
             Role = ''Head Coach''\<rparr>])))))))"

text \<open>The body of the loop of \<^verbatim>\<open>load_coaches\<close> over the teams.\<close>

definition coaches_of_team :: "net \<Rightarrow> int \<Rightarrow> int \<Rightarrow> coach_row list io" where
  "coaches_of_team net season tid =
     bind (fetch_json net (JStr (coach_list_url season tid))) (\<lambda>listing.
     if \<not> truthy listing then ret []
     else
       bind (get listing ''items'' (JArr [])) (\<lambda>items.
       bind (py_iter items) (\<lambda>items.
       coach_items net tid items)))"

definition load_coaches :: "net \<Rightarrow> int list \<Rightarrow> int \<Rightarrow> coach_row list io" where
  "load_coaches net team_ids season = for_rows (coaches_of_team net season) team_ids"

subsection \<open>Schedule\<close>

definition fetch_score :: "net \<Rightarrow> json \<Rightarrow> int option io" where
  "fetch_score net score_ref =
     (case score_ref of
        JObj kvs \<Rightarrow>
          if kvs = [] then ret None
          else
            bind (get score_ref ''$ref'' JNull) (\<lambda>ref.
            bind (if truthy ref then fetch_json net ref else ret JNull) (\<lambda>score_data.
            if truthy score_data
            then bind (get score_data ''value'' JNull) (\<lambda>v. ret (safe_int v))
            else ret None))
      | _ \<Rightarrow> ret None)"

record game_row =
  GameID :: "int option"
  GameDate :: string
  Week :: int
  HomeTeamID :: "int option"
  AwayTeamID :: "int option"
  HomeTeamScore :: "int option"
  AwayTeamScore :: "int option"

record stats_meta =
  event_id :: "int option"
  competition_id :: "int option"
  competitors :: "json list"
  status_ref :: json

definition week_url :: "int \<Rightarrow> int \<Rightarrow> string" where
  "week_url season week =
     ESPN_CORE @ ''/seasons/'' @ str_int season @ ''/types/2/weeks/'' @ str_int week @ ''/events''"

text \<open>\<^verbatim>\<open>a or b\<close> for \<^verbatim>\<open>Optional[int]\<close> values.\<close>

definition or_int :: "int option \<Rightarrow> int option \<Rightarrow> int option" where
  "or_int a b = (if truthy_int a then a else b)"

text \<open>
  \<^verbatim>\<open>competitions[0]\<close> for a truthy value: the first element of a list, the first
  character of a string; a dict has no key \<^verbatim>\<open>0\<close>, a number cannot be indexed.
\<close>

fun index0 :: "json \<Rightarrow> json io" where
  "index0 (JArr (x # xs)) = ret x"
| "index0 (JArr []) = raise IndexError"
| "index0 (JStr (c # cs)) = ret (JStr [c])"
| "index0 (JStr []) = raise IndexError"
| "index0 (JObj kvs) = raise KeyError"
| "index0 _ = raise TypeError"

text \<open>\<^verbatim>\<open>len(v)\<close>.\<close>

fun py_len :: "json \<Rightarrow> nat io" where
  "py_len (JArr xs) = ret (length xs)"
| "py_len (JStr s) = ret (length s)"
| "py_len (JObj kvs) = ret (length kvs)"
| "py_len _ = raise TypeError"

text \<open>
  \<^verbatim>\<open>next((c for c in competitors if c.get("homeAway") == side), None)\<close>: the first
  competitor of that side; the search reads \<^verbatim>\<open>homeAway\<close> of every competitor before it.
\<close>

fun find_side :: "string \<Rightarrow> json list \<Rightarrow> json io" where
  "find_side side [] = ret JNull"
| "find_side side (c # cs) =
     bind (get c ''homeAway'' JNull) (\<lambda>v. if v = JStr side then ret c else find_side side cs)"

text \<open>
  The body of the inner loop of \<^verbatim>\<open>load_games\<close>: the row of the event and its entry of
  \<^verbatim>\<open>stats_meta\<close>, or nothing when the event cannot be fetched or a side is missing.
\<close>

definition game_of_item :: "net \<Rightarrow> int \<Rightarrow> json \<Rightarrow> (game_row \<times> stats_meta) list io" where
  "game_of_item net week item =
     bind (get item ''$ref'' JNull) (\<lambda>ref.
     bind (fetch_json net ref) (\<lambda>event.
     if \<not> truthy event then ret []
     else
       bind (get event ''id'' JNull) (\<lambda>eid.
       bind (get_first event [''competitions''] (JArr [])) (\<lambda>competitions.
       bind (if truthy competitions then index0 competitions else ret (JObj [])) (\<lambda>comp.
       bind (get comp ''id'' JNull) (\<lambda>cid.
       bind (get_first comp [''competitors''] (JArr [])) (\<lambda>cs.
       bind (py_iter cs) (\<lambda>cs.
       bind (find_side ''home'' cs) (\<lambda>home.
       bind (find_side ''away'' cs) (\<lambda>away.
       if \<not> truthy home \<or> \<not> truthy away then ret []
       else
         bind (get home ''id'' JNull) (\<lambda>hid.
         bind (get away ''id'' JNull) (\<lambda>aid.
         bind (get home ''score'' JNull) (\<lambda>hs.
         bind (fetch_score net hs) (\<lambda>home_score.
         bind (get away ''score'' JNull) (\<lambda>as.
         bind (fetch_score net as) (\<lambda>away_score.
         bind (get comp ''date'' JNull) (\<lambda>cd.
         bind (if truthy cd then ret cd else get event ''date'' JNull) (\<lambda>game_date.
         bind (get event ''week'' JNull) (\<lambda>wk.
         bind (py_split_on CHR ''T'' (py_or game_date (JStr []))) (\<lambda>parts.
         bind (get_first comp [''status''] (JObj [])) (\<lambda>status.
         bind (get status ''$ref'' JNull) (\<lambda>sref.
         ret [(\<lparr>GameID = safe_int eid,
                 GameDate = (case parts of [] \<Rightarrow> [] | d # _ \<Rightarrow> d),
                 Week = (case or_int (parse_id_from_ref wk) (Some week) of
                           Some w \<Rightarrow> w | None \<Rightarrow> week),
                 HomeTeamID = safe_int hid,
                 AwayTeamID = safe_int aid,
                 HomeTeamScore = home_score,
                 AwayTeamScore = away_score\<rparr>,
               \<lparr>event_id = safe_int eid,
                 competition_id = or_int (safe_int cid) (safe_int eid),
                 competitors = [home, away],
                 status_ref = sref\<rparr>)]))))))))))))))))))))))"

text \<open>
  The week loop of \<^verbatim>\<open>load_games\<close> over the weeks still to scan. \<^verbatim>\<open>break\<close> leaves the loop
  with nothing more built: the rest of the weeks is not looked at. Past the test,
  \<^verbatim>\<open>week_data.get('items', [])\<close> and \<^verbatim>\<open>week_data["items"]\<close> are the truthy value the test
  read.
\<close>

fun week_scan :: "net \<Rightarrow> int \<Rightarrow> int list \<Rightarrow> (game_row \<times> stats_meta) list io" where
  "week_scan net season [] = ret []"
| "week_scan net season (week # weeks) =
     bind (info (Info_week_fetching week)) (\<lambda>_.
     bind (fetch_json net (JStr (week_url season week))) (\<lambda>week_data.
     bind (if \<not> truthy week_data then ret JNull else get week_data ''items'' JNull) (\<lambda>items.
     if \<not> truthy items then bind (info Info_no_events_found) (\<lambda>_. ret [])
     else
       bind (py_len items) (\<lambda>n.
       bind (info (Info_week_found week n)) (\<lambda>_.
       bind (py_iter items) (\<lambda>items.
       bind (for_rows (game_of_item net week) items) (\<lambda>built.
       bind (week_scan net season weeks) (\<lambda>rest.
       ret (built @ rest)))))))))"

definition load_games :: "net \<Rightarrow> int \<Rightarrow> int \<Rightarrow> (game_row list \<times> stats_meta list) io" where
  "load_games net season max_weeks =
     bind (week_scan net season [1 .. max_weeks]) (\<lambda>built.
     ret (map fst built, map snd built))"

subsection \<open>Game statistics\<close>

record stats_row =
  Stat_GameID :: int
  Stat_PlayerID :: int
  Pass_yrd :: json
  Rush_yrd :: json
  Rec_yrd :: json
  Touchdowns :: json
  Tackles :: json
  Interceptions :: json

text \<open>
  A loop that appends rows and counts them in \<^verbatim>\<open>processed\<close>: the rows of every
  iteration and the counter after the last one.
\<close>

fun for_rows_counted ::
  "('a \<Rightarrow> nat \<Rightarrow> ('b list \<times> nat) io) \<Rightarrow> 'a list \<Rightarrow> nat \<Rightarrow> ('b list \<times> nat) io" where
  "for_rows_counted body [] processed = ret ([], processed)"
| "for_rows_counted body (x # xs) processed =
     bind (body x processed) (\<lambda>r.
     bind (for_rows_counted body xs (snd r)) (\<lambda>rest.
     ret (fst r @ fst rest, snd rest)))"

text \<open>
  \<^verbatim>\<open>stats_lookup\<close>: the dict \<^verbatim>\<open>values\<close> as an association list, the latest write first.
  A list or a dict cannot be a key.
\<close>

fun hashable :: "json \<Rightarrow> bool" where
  "hashable (JArr xs) = False"
| "hashable (JObj kvs) = False"
| "hashable _ = True"

fun stats_of_category :: "(json \<times> json) list \<Rightarrow> json list \<Rightarrow> (json \<times> json) list io" where
  "stats_of_category values [] = ret values"
| "stats_of_category values (stat # stats) =
     bind (get stat ''value'' JNull) (\<lambda>value.
     bind (get stat ''name'' JNull) (\<lambda>name.
     if hashable name then stats_of_category ((name, value) # values) stats
     else raise TypeError))"

fun stats_of_categories :: "(json \<times> json) list \<Rightarrow> json list \<Rightarrow> (json \<times> json) list io" where
  "stats_of_categories values [] = ret values"
| "stats_of_categories values (cat # cats) =
     bind (get cat ''stats'' (JArr [])) (\<lambda>stats.
     bind (py_iter stats) (\<lambda>stats.
     bind (stats_of_category values stats) (\<lambda>values.
     stats_of_categories values cats)))"

definition stats_lookup :: "json \<Rightarrow> (json \<times> json) list io" where
  "stats_lookup stats_obj =
     bind (get stats_obj ''splits'' (JObj [])) (\<lambda>splits.
     bind (get splits ''categories'' (JArr [])) (\<lambda>categories.
     bind (py_iter categories) (\<lambda>categories.
     stats_of_categories [] categories)))"

text \<open>\<^verbatim>\<open>lookup.get(name)\<close>.\<close>

definition lookup_get :: "(json \<times> json) list \<Rightarrow> string \<Rightarrow> json" where
  "lookup_get lookup name = (case map_of lookup (JStr name) of Some v \<Rightarrow> v | None \<Rightarrow> JNull)"

text \<open>\<^verbatim>\<open>a + b\<close>: numbers add (a bool counts as 0 or 1), strings and lists concatenate.\<close>

fun py_add :: "json \<Rightarrow> json \<Rightarrow> json io" where
  "py_add (JInt a) (JInt b) = ret (JInt (a + b))"
| "py_add (JInt a) (JBool b) = ret (JInt (a + (if b then 1 else 0)))"
| "py_add (JBool a) (JInt b) = ret (JInt ((if a then 1 else 0) + b))"
| "py_add (JBool a) (JBool b) = ret (JInt ((if a then 1 else 0) + (if b then 1 else 0)))"
| "py_add (JStr a) (JStr b) = ret (JStr (a @ b))"
| "py_add (JArr a) (JArr b) = ret (JArr (a @ b))"
| "py_add _ _ = raise TypeError"

definition stats_row_of :: "int \<Rightarrow> int \<Rightarrow> (json \<times> json) list \<Rightarrow> stats_row io" where
  "stats_row_of game_id athlete_id lookup =
     (let pass_yrd = py_or (lookup_get lookup ''passingYards'')
                       (py_or (lookup_get lookup ''netPassingYards'') (JInt 0));
          rush_yrd = py_or (lookup_get lookup ''rushingYards'') (JInt 0);
          rec_yrd = py_or (lookup_get lookup ''receivingYards'') (JInt 0)
      in
        bind (py_add (py_or (lookup_get lookup ''passingTouchdowns'') (JInt 0))
                     (py_or (lookup_get lookup ''rushingTouchdowns'') (JInt 0))) (\<lambda>td2.
        bind (py_add td2 (py_or (lookup_get lookup ''receivingTouchdowns'') (JInt 0))) (\<lambda>td.
        ret \<lparr>Stat_GameID = game_id, Stat_PlayerID = athlete_id,
             Pass_yrd = pass_yrd, Rush_yrd = rush_yrd, Rec_yrd = rec_yrd,
             Touchdowns = td,
             Tackles = py_or (lookup_get lookup ''totalTackles'')
                         (py_or (lookup_get lookup ''tackles'') (JInt 0)),
             Interceptions = py_or (lookup_get lookup ''interceptions'') (JInt 0)\<rparr>)))"

text \<open>
  The loop over \<^verbatim>\<open>athlete_refs\<close> with its set \<^verbatim>\<open>seen\<close>: a pair seen before is skipped,
  a new one is recorded before its statistics are fetched.
\<close>

fun athletes_loop ::
  "net \<Rightarrow> int \<Rightarrow> (int \<times> int) set \<Rightarrow> (int \<times> json) list \<Rightarrow> nat \<Rightarrow> (stats_row list \<times> nat) io"
where
  "athletes_loop net game_id seen [] processed = ret ([], processed)"
| "athletes_loop net game_id seen ((athlete_id, stat_ref) # refs) processed =
     (if (game_id, athlete_id) \<in> seen then athletes_loop net game_id seen refs processed
      else
        bind (fetch_json net stat_ref) (\<lambda>detail.
        if \<not> truthy detail
        then athletes_loop net game_id (insert (game_id, athlete_id) seen) refs processed
        else
          bind (stats_lookup detail) (\<lambda>lookup.
          bind (stats_row_of game_id athlete_id lookup) (\<lambda>row.
          bind (if Suc processed mod 50 = 0
                then info (Info_game_stats_rows_built (Suc processed)) else ret ()) (\<lambda>_.
          bind (athletes_loop net game_id (insert (game_id, athlete_id) seen) refs
                  (Suc processed)) (\<lambda>rest.
          ret (row # fst rest, snd rest)))))))"

text \<open>
  Collecting \<^verbatim>\<open>athlete_refs\<close> from a team's statistics block: a pair for every athlete
  with a truthy statistics reference and a truthy parsed id.
\<close>

definition athlete_ref_of :: "json \<Rightarrow> (int \<times> json) list io" where
  "athlete_ref_of ath =
     bind (get_first ath [''statistics''] (JObj [])) (\<lambda>st.
     bind (get st ''$ref'' JNull) (\<lambda>stat_ref.
     bind (get_first ath [''athlete''] (JObj [])) (\<lambda>at.
     bind (get at ''$ref'' JNull) (\<lambda>athlete_ref.
     case parse_id_from_ref athlete_ref of
       None \<Rightarrow> ret []
     | Some athlete_id \<Rightarrow>
         if truthy stat_ref \<and> athlete_id \<noteq> 0 then ret [(athlete_id, stat_ref)] else ret []))))"

definition athlete_refs_of_category :: "json \<Rightarrow> (int \<times> json) list io" where
  "athlete_refs_of_category cat =
     bind (get cat ''athletes'' (JArr [])) (\<lambda>athletes.
     bind (py_iter athletes) (\<lambda>athletes.
     for_rows athlete_ref_of athletes))"

definition athlete_refs_of :: "json \<Rightarrow> (int \<times> json) list io" where
  "athlete_refs_of stat_block =
     bind (get stat_block ''splits'' (JObj [])) (\<lambda>splits.
     bind (get splits ''categories'' (JArr [])) (\<lambda>categories.
     bind (py_iter categories) (\<lambda>categories.
     for_rows athlete_refs_of_category categories)))"

definition stats_url :: "int \<Rightarrow> int \<Rightarrow> int \<Rightarrow> string" where
  "stats_url event competition team_id =
     ESPN_CORE @ ''/events/'' @ str_int event @ ''/competitions/'' @ str_int competition
       @ ''/competitors/'' @ str_int team_id @ ''/statistics/0''"

text \<open>
  The body of the loop over the two competitors of an entry. \<^verbatim>\<open>seen\<close> is a fresh empty
  set for every competitor: it is assigned inside this loop.
\<close>

definition competitor_stats ::
  "net \<Rightarrow> int \<Rightarrow> int \<Rightarrow> json \<Rightarrow> nat \<Rightarrow> (stats_row list \<times> nat) io" where
  "competitor_stats net event competition competitor processed =
     bind (get competitor ''id'' JNull) (\<lambda>i.
     case safe_int i of
       None \<Rightarrow> ret ([], processed)
     | Some team_id \<Rightarrow>
         if team_id = 0 then ret ([], processed)
         else
           bind (fetch_json net (JStr (stats_url event competition team_id))) (\<lambda>stat_block.
           if \<not> truthy stat_block then ret ([], processed)
           else
             bind (athlete_refs_of stat_block) (\<lambda>athlete_refs.
             athletes_loop net event {} athlete_refs processed)))"

text \<open>
  \<^verbatim>\<open>status = fetch_json(entry.get("status_ref")) if entry.get("status_ref") else None\<close>.
\<close>

definition fetch_status :: "net \<Rightarrow> stats_meta \<Rightarrow> json io" where
  "fetch_status net entry =
     (if truthy (status_ref entry) then fetch_json net (status_ref entry) else ret JNull)"

text \<open>\<^verbatim>\<open>status and status.get("type", {}).get("state") != "post"\<close>.\<close>

definition not_finished :: "json \<Rightarrow> bool io" where
  "not_finished status =
     (if truthy status
      then bind (get status ''type'' (JObj [])) (\<lambda>ty.
           bind (get ty ''state'' JNull) (\<lambda>state.
           ret (state \<noteq> JStr ''post'')))
      else ret False)"

text \<open>
  The body of the loop over \<^verbatim>\<open>meta\<close>. The entry is skipped when an id is missing or
  \<^verbatim>\<open>0\<close>, and when its status is truthy with a state other than \<^verbatim>\<open>post\<close>.
\<close>

definition entry_stats :: "net \<Rightarrow> stats_meta \<Rightarrow> nat \<Rightarrow> (stats_row list \<times> nat) io" where
  "entry_stats net entry processed =
     (case (event_id entry, competition_id entry) of
        (Some event, Some competition) \<Rightarrow>
          if event = 0 \<or> competition = 0 then ret ([], processed)
          else
            bind (fetch_status net entry) (\<lambda>status.
            bind (not_finished status) (\<lambda>skip.
            if skip then ret ([], processed)
            else
              bind (info (Info_game_stats_processing (event_id entry))) (\<lambda>_.
              for_rows_counted (competitor_stats net event competition)
                (competitors entry) processed)))
      | _ \<Rightarrow> ret ([], processed))"

definition load_game_stats :: "net \<Rightarrow> stats_meta list \<Rightarrow> stats_row list io" where
  "load_game_stats net meta =
     bind (for_rows_counted (entry_stats net) meta 0) (\<lambda>r. ret (fst r))"

subsection \<open>The run\<close>

record frames =
  TEAM :: "team_row list"
  PLAYER :: "player_row list"
  COACH :: "coach_row list"
  GAME :: "game_row list"
  GAME_STATS :: "stats_row list"

text \<open>\<^verbatim>\<open>teams["TeamID"].dropna().tolist()\<close>.\<close>

definition team_ids_of :: "team_row list \<Rightarrow> int list" where
  "team_ids_of teams = List.map_filter TeamID teams"

text \<open>\<^verbatim>\<open>players[players["PlayerID"].isin(used_ids)]\<close>.\<close>

definition prune_players :: "stats_row list \<Rightarrow> player_row list \<Rightarrow> player_row list" where
  "prune_players game_stats players =
     filter (\<lambda>p. PlayerID p \<in> set (map Stat_PlayerID game_stats)) players"

definition save_frames :: "frames \<Rightarrow> unit io" where
  "save_frames fr =
     bind (info (Info_wrote ''TEAM'' (length (TEAM fr)))) (\<lambda>_.
     bind (info (Info_wrote ''PLAYER'' (length (PLAYER fr)))) (\<lambda>_.
     bind (info (Info_wrote ''COACH'' (length (COACH fr)))) (\<lambda>_.
     bind (info (Info_wrote ''GAME'' (length (GAME fr)))) (\<lambda>_.
     info (Info_wrote ''GAME_STATS'' (length (GAME_STATS fr)))))))"

text \<open>
  \<^verbatim>\<open>main\<close> of the extractor; \<open>this_year\<close> is \<^verbatim>\<open>datetime.now().year\<close>. An exception of a
  stage ends the run: no frames are returned and nothing is saved.
\<close>

definition main :: "int \<Rightarrow> net \<Rightarrow> int option \<Rightarrow> bool \<Rightarrow> bool \<Rightarrow> int \<Rightarrow> frames io" where
  "main this_year net season_arg save skip_game_stats max_weeks =
     (let season = (case season_arg of
                      None \<Rightarrow> this_year
                    | Some y \<Rightarrow> if y = 0 then this_year else y)
      in
        bind (info (Info_loading_season season)) (\<lambda>_.
        bind (load_teams net) (\<lambda>teams.
        bind (load_all_players net (team_ids_of teams)) (\<lambda>players.
        bind (load_coaches net (team_ids_of teams) season) (\<lambda>coaches.
        bind (load_games net season max_weeks) (\<lambda>gm.
        bind (if \<not> skip_game_stats then load_game_stats net (snd gm) else ret []) (\<lambda>game_stats.
        bind (if game_stats \<noteq> []
              then bind (info (Info_pruned_players (length players)
                                 (length (prune_players game_stats players)))) (\<lambda>_.
                   ret (prune_players game_stats players))
              else ret players) (\<lambda>players.
        let fr = \<lparr>TEAM = teams, PLAYER = players, COACH = coaches, GAME = fst gm,
                   GAME_STATS = game_stats\<rparr>
        in
          bind (if save then save_frames fr else ret ()) (\<lambda>_.
          bind (info (Info_rows (length teams) (length players) (length coaches)
                        (length (fst gm)) (length game_stats))) (\<lambda>_.
          bind (info Info_done) (\<lambda>_.
          ret fr)))))))))))"

section \<open>The loader\<close>

text \<open>
  \<^verbatim>\<open>load_csv_to_oracle.py\<close> reads the five files with pandas and sends statements to the
  database. A file read by \<^verbatim>\<open>pd.read_csv\<close> is a frame: its header and its rows of
  cells, an empty or NaN cell being \<open>CNull\<close>. What the program does to the database is
  the list of statements it executes, in order.
\<close>

datatype cell = CNull | CInt int | CStr string | CTime string

record dataframe =
  df_columns :: "string list"
  df_rows :: "cell list list"

type_synonym files = "string \<Rightarrow> dataframe option"

datatype sql =
    Truncate_table string
  | Insert_into string "string list" "cell list list"
  | Commit

definition TABLE_ORDER :: "(string \<times> string list) list" where
  "TABLE_ORDER =
     [(''TEAM'', [''TeamID'', ''TeamName'', ''City'', ''Conference'', ''Division'']),
      (''PLAYER'', [''PlayerID'', ''Fname'', ''Lname'', ''Position'', ''TeamID'']),
      (''COACH'', [''CoachID'', ''LName'', ''FName'', ''TeamID'', ''Role'']),
      (''GAME'', [''GameID'', ''GameDate'', ''Week'', ''HomeTeamID'', ''AwayTeamID'',
                  ''HomeTeamScore'', ''AwayTeamScore'']),
      (''GAME_STATS'', [''GameID'', ''PlayerID'', ''Pass_yrd'', ''Rush_yrd'', ''Rec_yrd'',
                        ''Touchdowns'', ''Tackles'', ''Interceptions''])]"

text \<open>\<^verbatim>\<open>row[col]\<close> in a frame with the given header.\<close>

definition cell_at :: "string list \<Rightarrow> cell list \<Rightarrow> string \<Rightarrow> cell" where
  "cell_at header row col = (case map_of (zip header row) col of Some v \<Rightarrow> v | None \<Rightarrow> CNull)"

text \<open>
  \<^verbatim>\<open>load_csv\<close>; \<open>to_datetime\<close> is what \<^verbatim>\<open>pd.to_datetime(errors="coerce")\<close> followed by
  \<^verbatim>\<open>to_pydatetime\<close> makes of a cell of the \<^verbatim>\<open>GameDate\<close> column (\<open>CNull\<close> when it cannot
  be parsed).
\<close>

definition load_csv ::
  "(cell \<Rightarrow> cell) \<Rightarrow> files \<Rightarrow> string \<Rightarrow> string list \<Rightarrow> cell list list io" where
  "load_csv to_datetime fs csv_path columns =
     (case fs csv_path of
        None \<Rightarrow> raise (FileNotFoundError csv_path)
      | Some df \<Rightarrow>
          let missing = filter (\<lambda>c. c \<notin> set (df_columns df)) columns in
          if missing \<noteq> [] then raise (ValueError csv_path missing)
          else
            ret (map (\<lambda>row.
                   map (\<lambda>col.
                     if col = ''GameDate'' then to_datetime (cell_at (df_columns df) row col)
                     else cell_at (df_columns df) row col)
                     columns)
                   (df_rows df)))"

definition truncate_tables :: "string list \<Rightarrow> sql list" where
  "truncate_tables tables = map Truncate_table tables"

definition insert_rows :: "string \<Rightarrow> string list \<Rightarrow> cell list list \<Rightarrow> sql list" where
  "insert_rows table columns rows = (if rows = [] then [] else [Insert_into table columns rows])"

text \<open>\<^verbatim>\<open>os.path.join(csv_dir, name)\<close> for a relative file name.\<close>

definition path_join :: "string \<Rightarrow> string \<Rightarrow> string" where
  "path_join dir name =
     (if dir = [] \<or> last dir = CHR ''/'' then dir @ name else dir @ ''/'' @ name)"

text \<open>
  The state of the loop of the loader's \<^verbatim>\<open>main\<close>: the two sets of ids and the
  statements executed so far.
\<close>

record loader_state =
  player_ids :: "cell set"
  game_ids :: "cell set"
  executed :: "sql list"

text \<open>\<^verbatim>\<open>{r[0] for r in rows if r and r[0] is not None}\<close>.\<close>

definition ids_of :: "cell list list \<Rightarrow> cell set" where
  "ids_of rows = (\<lambda>r. r ! 0) ` set (filter (\<lambda>r. r \<noteq> [] \<and> r ! 0 \<noteq> CNull) rows)"

text \<open>
  One iteration of the loop over \<^verbatim>\<open>TABLE_ORDER\<close>. The rows of \<^verbatim>\<open>load_csv\<close> have one cell
  per column of the table, so \<^verbatim>\<open>r[0]\<close> and \<^verbatim>\<open>r[1]\<close> exist.
\<close>

definition load_table ::
  "(cell \<Rightarrow> cell) \<Rightarrow> files \<Rightarrow> string \<Rightarrow> string \<times> string list \<Rightarrow> loader_state
     \<Rightarrow> loader_state io" where
  "load_table to_datetime fs csv_dir tc st =
     (case tc of (table, cols) \<Rightarrow>
        bind (info (Load_table_from (path_join csv_dir (table @ ''.csv'')))) (\<lambda>_.
        bind (load_csv to_datetime fs (path_join csv_dir (table @ ''.csv'')) cols) (\<lambda>rows.
        bind (if table = ''GAME_STATS''
              then
                (let filtered = filter (\<lambda>r. r ! 0 \<in> game_ids st \<and> r ! 1 \<in> player_ids st) rows
                 in bind (if length filtered \<noteq> length rows
                          then info (Load_skipped (length rows - length filtered))
                          else ret ()) (\<lambda>_.
                    ret filtered))
              else ret rows) (\<lambda>rows.
        bind (info (Load_inserted table (length rows))) (\<lambda>_.
        ret \<lparr>player_ids = (if table = ''PLAYER'' then ids_of rows else player_ids st),
             game_ids = (if table = ''GAME'' then ids_of rows else game_ids st),
             executed = executed st @ insert_rows table cols rows\<rparr>)))))"

fun load_tables ::
  "(cell \<Rightarrow> cell) \<Rightarrow> files \<Rightarrow> string \<Rightarrow> (string \<times> string list) list \<Rightarrow> loader_state
     \<Rightarrow> loader_state io" where
  "load_tables to_datetime fs csv_dir [] st = ret st"
| "load_tables to_datetime fs csv_dir (tc # tcs) st =
     bind (load_table to_datetime fs csv_dir tc st) (\<lambda>st'.
     load_tables to_datetime fs csv_dir tcs st')"

record args =
  user :: "string option"
  password :: "string option"
  dsn :: "string option"
  csv_dir :: string
  truncate_arg :: bool

text \<open>\<^verbatim>\<open>args.x or os.getenv(name)\<close>.\<close>

definition arg_or_env :: "string option \<Rightarrow> string option \<Rightarrow> string option" where
  "arg_or_env a e = (case a of Some v \<Rightarrow> if v \<noteq> [] then Some v else e | None \<Rightarrow> e)"

definition falsy_str :: "string option \<Rightarrow> bool" where
  "falsy_str v = (v = None \<or> v = Some [])"

text \<open>
  The loader's \<^verbatim>\<open>main\<close>: the statements executed, in order. \<open>getenv\<close> is the
  environment. The connection and the statements themselves are taken to succeed.
\<close>

definition loader_main ::
  "(string \<Rightarrow> string option) \<Rightarrow> (cell \<Rightarrow> cell) \<Rightarrow> files \<Rightarrow> args \<Rightarrow> sql list io" where
  "loader_main getenv to_datetime fs a =
     (if falsy_str (arg_or_env (user a) (getenv ''ORACLE_USER''))
         \<or> falsy_str (arg_or_env (password a) (getenv ''ORACLE_PASSWORD''))
         \<or> falsy_str (arg_or_env (dsn a) (getenv ''ORACLE_DSN''))
      then raise (SystemExit ''Missing credentials'')
      else
        bind (load_tables to_datetime fs (csv_dir a) TABLE_ORDER
                \<lparr>player_ids = {}, game_ids = {},
                 executed = (if truncate_arg a
                             then truncate_tables (rev (map fst TABLE_ORDER)) @ [Commit]
                             else [])\<rparr>) (\<lambda>st.
        bind (info Load_done) (\<lambda>_.
        ret (executed st @ [Commit]))))"

section \<open>Observations and example inputs\<close>

text \<open>The rows the loader passed to an insert statement of a table.\<close>

fun inserted :: "string \<Rightarrow> sql list \<Rightarrow> cell list list" where
  "inserted table [] = []"
| "inserted table (Insert_into t cols rows # stmts) =
     (if t = table then rows @ inserted table stmts else inserted table stmts)"
| "inserted table (_ # stmts) = inserted table stmts"


text \<open>A property of what a computation returns, and of every row it returns.\<close>

definition returns :: "('a \<Rightarrow> bool) \<Rightarrow> 'a io \<Rightarrow> bool" where
  "returns P m = (\<forall>x. fst m = Inr x \<longrightarrow> P x)"

definition all_rows :: "('a \<Rightarrow> bool) \<Rightarrow> 'a list io \<Rightarrow> bool" where
  "all_rows P m = returns (\<lambda>rows. \<forall>r \<in> set rows. P r) m"

text \<open>A property of every line a computation prints.\<close>

definition prints :: "(log_line \<Rightarrow> bool) \<Rightarrow> 'a io \<Rightarrow> bool" where
  "prints P m = (\<forall>l \<in> set (snd m). P l)"

fun is_warning :: "log_line \<Rightarrow> bool" where
  "is_warning (Warn_fetch_failed url) = True"
| "is_warning _ = False"


definition answering :: "json \<Rightarrow> net" where
  "answering doc url = Some doc"

text \<open>An environment without the variables of the loader.\<close>

definition empty_env :: "string \<Rightarrow> string option" where
  "empty_env name = None"

text \<open>
  A teams listing with one team that has a name and an abbreviation, and neither
  \<^verbatim>\<open>location\<close> nor \<^verbatim>\<open>displayName\<close>.
\<close>

definition teams_without_city :: json where
  "teams_without_city =
     JObj [(''sports'', JArr [JObj [(''leagues'', JArr [JObj [(''teams'', JArr [
       JObj [(''team'', JObj [(''id'', JStr ''12''), (''abbreviation'', JStr ''KC''),
                              (''name'', JStr ''Chiefs'')])]])]])]])]"

text \<open>
  One document that answers every request of a small season: a teams listing with one
  team, its roster (athlete 77 twice, athlete 78 once), a listing with one reference
  (the coaches of a team, the events of a week), a coach, an event with two competitors,
  a score, a status and a statistics block that names athlete 77.
\<close>

definition season_doc :: json where
  "season_doc =
     JObj [(''sports'', JArr [JObj [(''leagues'', JArr [JObj [(''teams'', JArr [
             JObj [(''team'', JObj [(''id'', JStr ''1''), (''abbreviation'', JStr ''kc''),
                                    (''displayName'', JStr ''Kansas City Chiefs''),
                                    (''location'', JStr ''Kansas City'')])]])]])]]),
           (''positionGroups'', JArr [JObj [(''athletes'', JArr [
             JObj [(''id'', JStr ''77''), (''fullName'', JStr ''Patrick Lavon Mahomes-Longsurname''),
                   (''position'', JObj [(''abbreviation'', JStr ''quarterback'')])],
             JObj [(''id'', JStr ''77''), (''fullName'', JStr ''Second Entry'')],
             JObj [(''id'', JStr ''78''), (''fullName'', JStr ''Bench'')]])]]),
           (''items'', JArr [JObj [(''$ref'', JStr ''ref'')]]),
           (''id'', JStr ''401''),
           (''firstName'', JStr ''Andrew Walter the Elder''),
           (''lastName'', JStr ''Reid''),
           (''date'', JStr ''2025-09-07T17:00Z''),
           (''competitions'', JArr [JObj [
              (''status'', JObj [(''$ref'', JStr ''status'')]),
              (''competitors'', JArr [
                 JObj [(''id'', JStr ''1''), (''homeAway'', JStr ''home''),
                       (''score'', JObj [(''$ref'', JStr ''score'')])],
                 JObj [(''id'', JStr ''2''), (''homeAway'', JStr ''away''),
                       (''score'', JObj [(''$ref'', JStr ''score'')])]])]]),
           (''value'', JInt 27),
           (''type'', JObj [(''state'', JStr ''post'')]),
           (''splits'', JObj [(''categories'', JArr [JObj [
              (''athletes'', JArr [
                 JObj [(''athlete'', JObj [(''$ref'', JStr ''athletes/77?lang=en'')]),
                       (''statistics'', JObj [(''$ref'', JStr ''stat'')])]]),
              (''stats'', JArr [
                 JObj [(''name'', JStr ''passingYards''), (''value'', JInt 300)],
                 JObj [(''name'', JStr ''passingTouchdowns''), (''value'', JInt 3)]])]])])]"

definition season_net :: net where
  "season_net = answering season_doc"

text \<open>The same service with another answer, or a failure, for one request.\<close>

definition season_net_except :: "string \<Rightarrow> json option \<Rightarrow> net" where
  "season_net_except special answer url = (if url = special then answer else Some season_doc)"


text \<open>A listing without items.\<close>

definition empty_listing :: "(string \<times> json) list" where
  "empty_listing = [(''items'', JArr [])]"

text \<open>A coach and an event that carry no \<^verbatim>\<open>id\<close>.\<close>

definition no_id_doc :: json where
  "no_id_doc =
     JObj [(''items'', JArr [JObj [(''$ref'', JStr ''ref'')]]),
           (''firstName'', JStr ''Andy''),
           (''lastName'', JStr ''Reid''),
           (''date'', JStr ''2025-09-07T17:00Z''),
           (''competitions'', JArr [JObj [
              (''competitors'', JArr [
                 JObj [(''id'', JStr ''1''), (''homeAway'', JStr ''home'')],
                 JObj [(''id'', JStr ''2''), (''homeAway'', JStr ''away'')]])]])]"

text \<open>
  An entry of \<^verbatim>\<open>stats_meta\<close> for event 401 as \<^verbatim>\<open>load_games\<close> builds it, with and
  without a status reference.
\<close>

definition entry_401 :: "json \<Rightarrow> stats_meta" where
  "entry_401 sref =
     \<lparr>event_id = Some 401, competition_id = Some 401,
      competitors = [JObj [(''id'', JStr ''1''), (''homeAway'', JStr ''home'')],
                     JObj [(''id'', JStr ''2''), (''homeAway'', JStr ''away'')]],
      status_ref = sref\<rparr>"

text \<open>Five files for the loader; two of the three statistics rows have no parent.\<close>

definition example_files :: files where
  "example_files path =
     (if path = ''data/TEAM.csv'' then
        Some \<lparr>df_columns = [''TeamID'', ''TeamName'', ''City'', ''Conference'', ''Division''],
              df_rows = [[CInt 1, CStr ''Chiefs'', CStr ''Kansas'', CStr ''AFC'', CStr ''W'']]\<rparr>
      else if path = ''data/PLAYER.csv'' then
        Some \<lparr>df_columns = [''PlayerID'', ''Fname'', ''Lname'', ''Position'', ''TeamID''],
              df_rows = [[CInt 77, CStr ''Patrick'', CStr ''Mahomes'', CStr ''QB'', CInt 1]]\<rparr>
      else if path = ''data/COACH.csv'' then
        Some \<lparr>df_columns = [''CoachID'', ''LName'', ''FName'', ''TeamID'', ''Role''],
              df_rows = []\<rparr>
      else if path = ''data/GAME.csv'' then
        Some \<lparr>df_columns = [''GameID'', ''GameDate'', ''Week'', ''HomeTeamID'', ''AwayTeamID'',
                            ''HomeTeamScore'', ''AwayTeamScore''],
              df_rows = [[CInt 401, CStr ''2025-09-07'', CInt 1, CInt 1, CInt 2, CInt 27,
                          CInt 20]]\<rparr>
      else if path = ''data/GAME_STATS.csv'' then
        Some \<lparr>df_columns = [''GameID'', ''PlayerID'', ''Pass_yrd'', ''Rush_yrd'', ''Rec_yrd'',
                            ''Touchdowns'', ''Tackles'', ''Interceptions''],
              df_rows = [[CInt 401, CInt 77, CInt 300, CInt 0, CInt 0, CInt 3, CInt 0, CInt 0],
                         [CInt 401, CInt 99, CInt 0, CInt 12, CInt 0, CInt 0, CInt 0, CInt 0],
                         [CInt 402, CInt 77, CInt 0, CInt 0, CInt 0, CInt 0, CInt 0, CInt 0]]\<rparr>
      else None)"

definition example_args :: args where
  "example_args =
     \<lparr>user = Some ''scott'', password = Some ''tiger'', dsn = Some ''localhost/orclpdb'',
      csv_dir = ''data'', truncate_arg = True\<rparr>"

definition parse_date :: "cell \<Rightarrow> cell" where
  "parse_date c = (case c of CStr s \<Rightarrow> CTime s | _ \<Rightarrow> CNull)"

text \<open>The rows \<^verbatim>\<open>load_csv\<close> reads from the example file of a table.\<close>

definition example_rows :: "string \<Rightarrow> cell list list" where
  "example_rows table =
     (case map_of TABLE_ORDER table of
        None \<Rightarrow> []
      | Some cols \<Rightarrow>
          (case fst (load_csv parse_date example_files (path_join ''data'' (table @ ''.csv'')) cols) of
             Inr rows \<Rightarrow> rows
           | Inl e \<Rightarrow> []))"

text \<open>The statistics row of athlete 77 in event 401.\<close>

definition row_401_77 :: stats_row where
  "row_401_77 =
     \<lparr>Stat_GameID = 401, Stat_PlayerID = 77, Pass_yrd = JInt 300, Rush_yrd = JInt 0,
      Rec_yrd = JInt 0, Touchdowns = JInt 3, Tackles = JInt 0, Interceptions = JInt 0\<rparr>"

text \<open>The GAME row and the entry of \<^verbatim>\<open>stats_meta\<close> of the event without \<^verbatim>\<open>id\<close>.\<close>

definition game_without_id :: game_row where
  "game_without_id =
     \<lparr>GameID = None, GameDate = ''2025-09-07'', Week = 1, HomeTeamID = Some 1,
      AwayTeamID = Some 2, HomeTeamScore = None, AwayTeamScore = None\<rparr>"

definition meta_without_id :: stats_meta where
  "meta_without_id =
     \<lparr>event_id = None, competition_id = None,
      competitors = [JObj [(''id'', JStr ''1''), (''homeAway'', JStr ''home'')],
                     JObj [(''id'', JStr ''2''), (''homeAway'', JStr ''away'')]],
      status_ref = JNull\<rparr>"

text \<open>What a run on \<open>season_net\<close> with one week returns.\<close>

definition season_frames :: frames where
  "season_frames =
     \<lparr>TEAM = [\<lparr>TeamID = Some 1, TeamName = JStr ''Kansas City Chi'', City = ''Kansas'',
                Conference = ''AFC'', Division = ''W''\<rparr>],
      PLAYER = [\<lparr>PlayerID = 77, Fname = ''Patrick'', Lname = ''Mahomes-Longsur'',
                  Position = ''QUAR'', Player_TeamID = 1\<rparr>],
      COACH = [\<lparr>CoachID = Some 401, LName = JStr ''Reid'', FName = JStr ''Andrew Walter t'',
                 Coach_TeamID = 1, Role = ''Head Coach''\<rparr>],
      GAME = [\<lparr>GameID = Some 401, GameDate = ''2025-09-07'', Week = 1, HomeTeamID = Some 1,
                AwayTeamID = Some 2, HomeTeamScore = Some 27, AwayTeamScore = Some 27\<rparr>],
      GAME_STATS = [row_401_77, row_401_77]\<rparr>"

section \<open>Properties\<close>

subsection \<open>Teams without a city\<close>

text \<open>
  Claim C6: building the TEAM row is total, and missing name, city or abbreviation
  fields yield empty strings. The code raises instead when a team has neither
  \<^verbatim>\<open>location\<close> nor \<^verbatim>\<open>displayName\<close>: the city is the first word of the empty string,
  \<^verbatim>\<open>"".split()[0]\<close>, which is an \<^verbatim>\<open>IndexError\<close>, and \<^verbatim>\<open>load_teams\<close> does not catch it.
\<close>

theorem C6_team_without_city_raises:
  "fst (load_teams (answering teams_without_city)) = Inl IndexError"
  by code_simp

subsection \<open>Rows without a key\<close>

text \<open>
  Claim C3: a Player, Coach or Game record whose id cannot be parsed is dropped, so no
  row has an absent key. \<^verbatim>\<open>load_roster\<close> drops such an athlete, but \<^verbatim>\<open>load_coaches\<close> and
  \<^verbatim>\<open>load_games\<close> do not test the id: a coach and an event without \<^verbatim>\<open>id\<close> give a COACH
  row and a GAME row whose key is \<open>None\<close>.
\<close>

theorem C3_rows_without_key:
  "fst (load_coaches (answering no_id_doc) [1] 2025) =
     Inr [\<lparr>CoachID = None, LName = JStr ''Reid'', FName = JStr ''Andy'', Coach_TeamID = 1,
           Role = ''Head Coach''\<rparr>]
   \<and> fst (load_games (answering no_id_doc) 2025 1) = Inr ([game_without_id], [meta_without_id])
   \<and> GameID game_without_id = None"
  by code_simp

subsection \<open>One athlete in both boxscores\<close>

text \<open>
  Claim C5: GAME_STATS has at most one row for each pair of GameID and PlayerID, even
  when an athlete appears in the boxscores of both teams of an event. The set \<^verbatim>\<open>seen\<close>
  is emptied for every competitor, so an athlete named by both statistics blocks of
  event 401 gives two rows with the same pair.
\<close>

theorem C5_same_athlete_twice:
  "fst (load_game_stats season_net [entry_401 JNull]) = Inr [row_401_77, row_401_77]
   \<and> Stat_GameID row_401_77 = 401 \<and> Stat_PlayerID row_401_77 = 77"
  by code_simp

subsection \<open>Results and output of composed computations\<close>

lemma bind_ret [simp]: "bind (ret x) f = f x"
  by (simp add: bind_def ret_def split: prod.split)

lemma bind_raise [simp]: "bind (raise e) f = raise e"
  by (simp add: bind_def raise_def)

lemma fst_ret [simp]: "fst (ret x) = Inr x"
  by (simp add: ret_def)

lemma snd_ret [simp]: "snd (ret x) = []"
  by (simp add: ret_def)

lemma fst_raise [simp]: "fst (raise e) = Inl e"
  by (simp add: raise_def)

lemma snd_raise [simp]: "snd (raise e) = []"
  by (simp add: raise_def)

lemma fst_info [simp]: "fst (info l) = Inr ()"
  by (simp add: info_def)

lemma snd_info [simp]: "snd (info l) = [l]"
  by (simp add: info_def)

lemma fst_bind_Inr: "(fst (bind m f) = Inr y) = (\<exists>x. fst m = Inr x \<and> fst (f x) = Inr y)"
  by (cases m; cases "fst m") (auto simp: bind_def split: prod.split)

lemma fst_bind:
  "fst (bind m f) = (case fst m of Inl e \<Rightarrow> Inl e | Inr x \<Rightarrow> fst (f x))"
  by (cases m; cases "fst m") (auto simp: bind_def split: prod.split)

lemma fst_bind_cong:
  "fst m = fst m' \<Longrightarrow> (\<And>x. fst (f x) = fst (g x)) \<Longrightarrow> fst (bind m f) = fst (bind m' g)"
  by (simp add: fst_bind split: sum.split)

lemma snd_bind:
  "snd (bind m f) = (case fst m of Inl e \<Rightarrow> snd m | Inr x \<Rightarrow> snd m @ snd (f x))"
  by (cases m; cases "fst m") (auto simp: bind_def split: prod.split)

lemma for_rows_Inr:
  "fst (for_rows body xs) = Inr rows \<Longrightarrow>
   \<exists>rs. list_all2 (\<lambda>x r. fst (body x) = Inr r) xs rs \<and> rows = concat rs"
proof (induction xs arbitrary: rows)
  case Nil
  then show ?case by simp
next
  case (Cons x xs)
  from Cons.prems obtain r rest where
    r: "fst (body x) = Inr r" and rest: "fst (for_rows body xs) = Inr rest"
    and rows: "rows = r @ rest"
    by (auto simp: fst_bind_Inr)
  from Cons.IH [OF rest] obtain rs where
    "list_all2 (\<lambda>x r. fst (body x) = Inr r) xs rs" "rest = concat rs"
    by blast
  with r rows have "list_all2 (\<lambda>x r. fst (body x) = Inr r) (x # xs) (r # rs) \<and> rows = concat (r # rs)"
    by simp
  then show ?case by blast
qed


subsection \<open>Deduplication\<close>

lemma set_drop_duplicates: "set (drop_duplicates key xs) \<subseteq> set xs"
  by (induction key xs rule: drop_duplicates.induct) auto

lemma distinct_drop_duplicates: "distinct (map key (drop_duplicates key xs))"
proof (induction key xs rule: drop_duplicates.induct)
  case (1 key)
  then show ?case by simp
next
  case (2 key x xs)
  have "key x \<notin> key ` set (drop_duplicates key (filter (\<lambda>y. key y \<noteq> key x) xs))"
    using set_drop_duplicates [of key "filter (\<lambda>y. key y \<noteq> key x) xs"] by auto
  with 2 show ?case by simp
qed

lemma find_filter_weaker:
  "(\<And>y. P y \<Longrightarrow> Q y) \<Longrightarrow> find P (filter Q xs) = find P xs"
  by (induction xs) auto

lemma drop_duplicates_first:
  "p \<in> set (drop_duplicates key xs) \<Longrightarrow> find (\<lambda>q. key q = key p) xs = Some p"
proof (induction key xs rule: drop_duplicates.induct)
  case (1 key)
  then show ?case by simp
next
  case (2 key x xs)
  show ?case
  proof (cases "p = x")
    case True
    then show ?thesis by simp
  next
    case False
    with "2.prems" have mem: "p \<in> set (drop_duplicates key (filter (\<lambda>y. key y \<noteq> key x) xs))"
      by simp
    with set_drop_duplicates [of key "filter (\<lambda>y. key y \<noteq> key x) xs"]
    have neq: "key p \<noteq> key x" by auto
    from "2.IH" [OF mem]
    have "find (\<lambda>q. key q = key p) (filter (\<lambda>y. key y \<noteq> key x) xs) = Some p" .
    moreover have "find (\<lambda>q. key q = key p) (filter (\<lambda>y. key y \<noteq> key x) xs)
                     = find (\<lambda>q. key q = key p) xs"
      using neq by (intro find_filter_weaker) auto
    ultimately show ?thesis using neq by auto
  qed
qed

lemma keys_drop_duplicates: "key ` set (drop_duplicates key xs) = key ` set xs"
proof (induction key xs rule: drop_duplicates.induct)
  case (1 key)
  then show ?case by simp
next
  case (2 key x xs)
  then show ?case by auto
qed

subsection \<open>The stages of a run\<close>

lemma main_Inr:
  assumes "fst (main this_year net season_arg save skip_game_stats max_weeks) = Inr fr"
  shows "\<exists>players meta.
    fst (load_teams net) = Inr (TEAM fr)
    \<and> fst (load_all_players net (team_ids_of (TEAM fr))) = Inr players
    \<and> (PLAYER fr = players \<or> PLAYER fr = prune_players (GAME_STATS fr) players)
    \<and> fst (load_coaches net (team_ids_of (TEAM fr))
              (case season_arg of None \<Rightarrow> this_year
               | Some y \<Rightarrow> if y = 0 then this_year else y)) = Inr (COACH fr)
    \<and> fst (load_games net
              (case season_arg of None \<Rightarrow> this_year
               | Some y \<Rightarrow> if y = 0 then this_year else y) max_weeks) = Inr (GAME fr, meta)
    \<and> (GAME_STATS fr = [] \<or> fst (load_game_stats net meta) = Inr (GAME_STATS fr))"
  using assms unfolding main_def Let_def
  by (auto simp: fst_bind_Inr split: if_splits)

lemma load_all_players_Inr:
  assumes "fst (load_all_players net team_ids) = Inr players"
  obtains rosters where
    "list_all2 (\<lambda>tid r. fst (load_roster net tid) = Inr r) team_ids rosters"
    "players = drop_duplicates PlayerID (concat rosters)"
proof -
  from assms obtain rows where
    rows: "fst (for_rows (\<lambda>(idx, tid).
             bind (info (Info_rosters_fetching tid idx (length team_ids))) (\<lambda>_.
             load_roster net tid)) (enumerate1 team_ids)) = Inr rows"
    and players: "players = drop_duplicates PlayerID rows"
    unfolding load_all_players_def Let_def by (auto simp: fst_bind_Inr)
  from for_rows_Inr [OF rows] obtain rs where
    rs: "list_all2 (\<lambda>x r. fst ((\<lambda>(idx, tid).
             bind (info (Info_rosters_fetching tid idx (length team_ids))) (\<lambda>_.
             load_roster net tid)) x) = Inr r) (enumerate1 team_ids) rs"
    and cat: "rows = concat rs"
    by blast
  have "list_all2 (\<lambda>x r. fst (load_roster net (snd x)) = Inr r) (enumerate1 team_ids) rs"
    using rs by (rule list_all2_mono) (auto simp: fst_bind_Inr split: prod.splits)
  then have "list_all2 (\<lambda>tid r. fst (load_roster net tid) = Inr r)
               (map snd (enumerate1 team_ids)) rs"
    by (simp add: list_all2_map1)
  moreover have "map snd (enumerate1 team_ids) = team_ids"
    unfolding enumerate1_def by (rule map_snd_zip) (simp del: upt_Suc)
  ultimately show ?thesis using players cat that by simp
qed

subsection \<open>Properties of what is returned\<close>

lemma returns_ret [simp]: "returns P (ret x) = P x"
  by (simp add: returns_def)

lemma returns_raise [simp]: "returns P (raise e)"
  by (simp add: returns_def)

lemma returns_bind: "(\<And>x. fst m = Inr x \<Longrightarrow> returns P (f x)) \<Longrightarrow> returns P (bind m f)"
  by (auto simp: returns_def fst_bind_Inr)

lemma returns_if:
  "(c \<Longrightarrow> returns P a) \<Longrightarrow> (\<not> c \<Longrightarrow> returns P b) \<Longrightarrow> returns P (if c then a else b)"
  by simp


lemma all_rows_ret [simp]: "all_rows P (ret rows) = (\<forall>r \<in> set rows. P r)"
  by (simp add: all_rows_def)

lemma all_rows_raise [simp]: "all_rows P (raise e)"
  by (simp add: all_rows_def)












subsection \<open>A run on the example service\<close>

lemma main_season_net: "fst (main 2025 season_net None True False 1) = Inr season_frames"
  by code_simp

subsection \<open>Unique players\<close>

text \<open>
  Claim C7: the PLAYER table has at most one row for each PlayerID, the first occurrence
  of an id on the rosters wins, and pruning the players without statistics keeps the
  ids unique. Every row of PLAYER is the first row with its id in the rosters of the
  teams, taken in the order of the teams.
\<close>

theorem C7_player_ids_unique:
  assumes "fst (main this_year net season_arg save skip_game_stats max_weeks) = Inr fr"
  shows "distinct (map PlayerID (PLAYER fr))
       \<and> (\<exists>rosters.
            list_all2 (\<lambda>tid r. fst (load_roster net tid) = Inr r)
              (team_ids_of (TEAM fr)) rosters
            \<and> (\<forall>p \<in> set (PLAYER fr).
                 find (\<lambda>q. PlayerID q = PlayerID p) (concat rosters) = Some p))"
proof -
  from main_Inr [OF assms] obtain players where
    players: "fst (load_all_players net (team_ids_of (TEAM fr))) = Inr players"
    and pruned: "PLAYER fr = players \<or> PLAYER fr = prune_players (GAME_STATS fr) players"
    by blast
  from players obtain rosters where
    rosters: "list_all2 (\<lambda>tid r. fst (load_roster net tid) = Inr r)
                (team_ids_of (TEAM fr)) rosters"
    and dedup: "players = drop_duplicates PlayerID (concat rosters)"
    by (rule load_all_players_Inr)
  have unique: "distinct (map PlayerID players)"
    unfolding dedup by (rule distinct_drop_duplicates)
  have sub: "set (PLAYER fr) \<subseteq> set players"
    using pruned by (auto simp: prune_players_def)
  have "distinct (map PlayerID (PLAYER fr))"
    using pruned unique by (auto simp: prune_players_def distinct_map_filter)
  moreover have "\<forall>p \<in> set (PLAYER fr).
      find (\<lambda>q. PlayerID q = PlayerID p) (concat rosters) = Some p"
    using sub dedup drop_duplicates_first [of _ PlayerID "concat rosters"] by blast
  ultimately show ?thesis using rosters by blast
qed

theorem C7_witness:
  "fst (main 2025 season_net None True False 1) = Inr season_frames
   \<and> distinct (map PlayerID (PLAYER season_frames))
   \<and> map PlayerID (PLAYER season_frames) = [77]"
  using C7_player_ids_unique [OF main_season_net] main_season_net
  by (simp add: season_frames_def)

subsection \<open>Truncated text\<close>



subsection \<open>What a computation prints\<close>

lemma prints_ret [simp]: "prints P (ret x)"
  by (simp add: prints_def)

lemma prints_raise [simp]: "prints P (raise e)"
  by (simp add: prints_def)

lemma prints_info [simp]: "prints P (info l) = P l"
  by (simp add: prints_def)

lemma prints_bind: "prints P m \<Longrightarrow> (\<And>x. prints P (f x)) \<Longrightarrow> prints P (bind m f)"
  by (auto simp: prints_def snd_bind split: sum.splits)

lemma prints_if: "prints P a \<Longrightarrow> prints P b \<Longrightarrow> prints P (if c then a else b)"
  by simp

lemma prints_for_rows: "(\<And>x. prints P (body x)) \<Longrightarrow> prints P (for_rows body xs)"
  by (induction xs) (auto intro!: prints_bind)

lemma prints_mono: "prints P m \<Longrightarrow> (\<And>l. P l \<Longrightarrow> Q l) \<Longrightarrow> prints Q m"
  by (auto simp: prints_def)

lemma prints_get [simp]: "prints P (get d k dflt)"
  by (cases d) simp_all

lemma prints_get_first [simp]: "prints P (get_first d ks dflt)"
  by (induction ks) (auto intro!: prints_bind)

lemma prints_py_iter [simp]: "prints P (py_iter v)"
  by (cases v) simp_all

lemma prints_py_len [simp]: "prints P (py_len v)"
  by (cases v) simp_all

lemma prints_index0 [simp]: "prints P (index0 v)"
  by (induction v rule: index0.induct) simp_all

lemma prints_py_split_on [simp]: "prints P (py_split_on c v)"
  by (cases v) simp_all

lemma prints_find_side [simp]: "prints P (find_side side cs)"
  by (induction cs) (auto intro!: prints_bind)

lemma prints_fetch_json: "prints is_warning (fetch_json net url)"
  by (cases url) (auto intro!: prints_bind split: option.split)

lemma prints_fetch_score: "prints is_warning (fetch_score net score_ref)"
  unfolding fetch_score_def
  by (auto intro!: prints_bind prints_fetch_json split: json.split)

lemma prints_game_of_item: "prints is_warning (game_of_item net week item)"
  unfolding game_of_item_def
  by (intro prints_bind prints_if prints_fetch_json prints_fetch_score prints_get_first)
     simp_all

lemma prints_week_scan:
  "prints (\<lambda>l. is_warning l \<or> l = Info_no_events_found
             \<or> (\<exists>w n. l = Info_week_found w n \<and> w \<in> set ws)
             \<or> (\<exists>w. l = Info_week_fetching w \<and> w \<in> set ws))
     (week_scan net season ws)"
proof (induction ws)
  case Nil
  then show ?case by simp
next
  case (Cons week weeks)
  have inner: "prints (\<lambda>l. is_warning l \<or> l = Info_no_events_found
             \<or> (\<exists>w n. l = Info_week_found w n \<and> w \<in> set (week # weeks))
             \<or> (\<exists>w. l = Info_week_fetching w \<and> w \<in> set (week # weeks))) m"
    if "prints is_warning m" for m :: "'a io"
    using that by (rule prints_mono) simp
  have rest: "prints (\<lambda>l. is_warning l \<or> l = Info_no_events_found
             \<or> (\<exists>w n. l = Info_week_found w n \<and> w \<in> set (week # weeks))
             \<or> (\<exists>w. l = Info_week_fetching w \<and> w \<in> set (week # weeks)))
           (week_scan net season weeks)"
    using Cons.IH by (rule prints_mono) auto
  show ?case
    unfolding week_scan.simps
    by (intro prints_bind prints_if rest inner [OF prints_fetch_json]
          inner [OF prints_for_rows, OF prints_game_of_item])
       simp_all
qed

lemma weeks_fetched:
  "Info_week_fetching w \<in> set (snd (week_scan net season ws)) \<Longrightarrow> w \<in> set ws"
  using prints_week_scan [of ws net season] by (auto simp: prints_def)

subsection \<open>The week at which the scan stops\<close>

lemma fst_if_cong:
  "(c \<Longrightarrow> fst a = fst a') \<Longrightarrow> (\<not> c \<Longrightarrow> fst b = fst b') \<Longrightarrow>
   fst (if c then a else b) = fst (if c then a' else b')"
  by simp

lemma week_scan_after_stop:
  assumes stop: "\<And>ws. week_scan net season (w # ws) = (Inr [], out)"
  shows "week_scan net season (pre @ w # post) = week_scan net season (pre @ [w])"
proof (induction pre)
  case Nil
  show ?case by (simp only: append_Nil stop)
next
  case (Cons a pre)
  show ?case
    unfolding append_Cons week_scan.simps(2) Cons.IH ..
qed

lemma week_scan_before_stop:
  assumes stop: "\<And>ws. week_scan net season (w # ws) = (Inr [], out)"
  shows "fst (week_scan net season (pre @ [w])) = fst (week_scan net season pre)"
proof (induction pre)
  case Nil
  show ?case by (simp add: stop del: week_scan.simps(2))
next
  case (Cons a pre)
  show ?case
    unfolding append_Cons week_scan.simps(2)
    by (intro fst_bind_cong fst_if_cong refl Cons.IH)
qed

lemma week_scan_prefix:
  assumes stop: "\<And>ws. week_scan net season (w # ws) = (Inr [], out)"
  shows "fst (week_scan net season (pre @ w # post)) = fst (week_scan net season pre)
       \<and> snd (week_scan net season (pre @ w # post)) = snd (week_scan net season (pre @ [w]))"
  by (simp only: week_scan_after_stop [OF stop, of pre post] week_scan_before_stop [OF stop, of pre])

lemma week_scan_failed:
  "net (week_url season w) = None \<Longrightarrow>
   week_scan net season (w # ws) =
     (Inr [], [Info_week_fetching w, Warn_fetch_failed (JStr (week_url season w)),
               Info_no_events_found])"
  by (simp add: bind_def info_def ret_def)

lemma week_scan_empty:
  "net (week_url season w) = Some (JObj listing) \<Longrightarrow>
   \<not> truthy (case map_of listing ''items'' of Some items \<Rightarrow> items | None \<Rightarrow> JNull) \<Longrightarrow>
   week_scan net season (w # ws) = (Inr [], [Info_week_fetching w, Info_no_events_found])"
  by (simp add: bind_def info_def ret_def)

lemma load_games_stops:
  assumes stop: "\<And>ws. week_scan net season (w # ws) = (Inr [], out)"
    and w: "1 \<le> w"
  shows "(\<forall>x. Info_week_fetching x \<in> set (snd (load_games net season max_weeks))
              \<longrightarrow> 1 \<le> x \<and> x \<le> w \<and> x \<le> max_weeks)
       \<and> fst (load_games net season max_weeks)
           = fst (load_games net season (min max_weeks (w - 1)))"
proof (cases "w \<le> max_weeks")
  case False
  then have "min max_weeks (w - 1) = max_weeks" by simp
  moreover have "1 \<le> x \<and> x \<le> w \<and> x \<le> max_weeks"
    if "Info_week_fetching x \<in> set (snd (load_games net season max_weeks))" for x
  proof -
    from that have "Info_week_fetching x \<in> set (snd (week_scan net season [1 .. max_weeks]))"
      by (auto simp: load_games_def snd_bind split: sum.splits)
    from weeks_fetched [OF this] False show ?thesis by simp
  qed
  ultimately show ?thesis by simp
next
  case True
  with w have split: "[1 .. max_weeks] = [1 .. w - 1] @ w # [w + 1 .. max_weeks]"
    by (rule upto_split3)
  from week_scan_prefix [OF stop, of "[1 .. w - 1]" "[w + 1 .. max_weeks]"]
  have f: "fst (week_scan net season [1 .. max_weeks]) = fst (week_scan net season [1 .. w - 1])"
    and s: "snd (week_scan net season [1 .. max_weeks])
              = snd (week_scan net season ([1 .. w - 1] @ [w]))"
    by (simp_all add: split)
  have "1 \<le> x \<and> x \<le> w \<and> x \<le> max_weeks"
    if "Info_week_fetching x \<in> set (snd (load_games net season max_weeks))" for x
  proof -
    from that have "Info_week_fetching x \<in> set (snd (week_scan net season [1 .. max_weeks]))"
      by (auto simp: load_games_def snd_bind split: sum.splits)
    with s have "Info_week_fetching x \<in> set (snd (week_scan net season ([1 .. w - 1] @ [w])))"
      by simp
    from weeks_fetched [OF this] True w show ?thesis by auto
  qed
  moreover have "min max_weeks (w - 1) = w - 1"
    using True by simp
  moreover have "fst (load_games net season max_weeks) = fst (load_games net season (w - 1))"
    by (simp add: load_games_def fst_bind f)
  ultimately show ?thesis by simp
qed

text \<open>
  Claim C8: the schedule scan goes through the weeks from 1 up to the cap and stops at
  the first week whose listing has no items: when the listing of week \<open>w\<close> has no
  items, no week after \<open>w\<close> is queried, and GAME holds no game from week \<open>w\<close> or
  later. Every week the scan announces lies between 1 and the cap and is at most \<open>w\<close>,
  and the scan returns what a scan capped at week \<open>w - 1\<close> returns. (A game is of the
  week in whose listing it stands; its Week column is the week the event itself names.)
\<close>

theorem C8_scan_stops_at_empty_week:
  assumes "net (week_url season w) = Some (JObj listing)"
    and "\<not> truthy (case map_of listing ''items'' of Some items \<Rightarrow> items | None \<Rightarrow> JNull)"
    and "1 \<le> w"
  shows "(\<forall>x. Info_week_fetching x \<in> set (snd (load_games net season max_weeks))
              \<longrightarrow> 1 \<le> x \<and> x \<le> w \<and> x \<le> max_weeks)
       \<and> fst (load_games net season max_weeks)
           = fst (load_games net season (min max_weeks (w - 1)))"
  using week_scan_empty [of net season w listing, OF assms(1,2)] assms(3)
  by (rule load_games_stops)

theorem C8_witness:
  "season_net_except (week_url 2025 2) (Some (JObj empty_listing)) (week_url 2025 2)
     = Some (JObj empty_listing)
   \<and> \<not> truthy (case map_of empty_listing ''items'' of Some items \<Rightarrow> items | None \<Rightarrow> JNull)
   \<and> Info_week_fetching 3
       \<notin> set (snd (load_games (season_net_except (week_url 2025 2) (Some (JObj empty_listing)))
                    2025 18))
   \<and> fst (load_games (season_net_except (week_url 2025 2) (Some (JObj empty_listing))) 2025 18)
     = fst (load_games (season_net_except (week_url 2025 2) (Some (JObj empty_listing))) 2025 1)"
  using C8_scan_stops_at_empty_week
    [of "season_net_except (week_url 2025 2) (Some (JObj empty_listing))" 2025 2
        empty_listing 18]
  by (auto simp: season_net_except_def empty_listing_def)

text \<open>
  Claim C10: a listing of a week that cannot be fetched stops the scan like a week
  without events: when the request for week \<open>w\<close> fails, no week after \<open>w\<close> is queried
  and GAME holds only the rows built from the weeks before \<open>w\<close>.
\<close>

theorem C10_failed_listing_stops_scan:
  assumes "net (week_url season w) = None"
    and "1 \<le> w"
  shows "(\<forall>x. Info_week_fetching x \<in> set (snd (load_games net season max_weeks))
              \<longrightarrow> 1 \<le> x \<and> x \<le> w \<and> x \<le> max_weeks)
       \<and> fst (load_games net season max_weeks)
           = fst (load_games net season (min max_weeks (w - 1)))"
  using week_scan_failed [of net season w, OF assms(1)] assms(2)
  by (rule load_games_stops)

theorem C10_witness:
  "season_net_except (week_url 2025 2) None (week_url 2025 2) = None
   \<and> Info_week_fetching 3
       \<notin> set (snd (load_games (season_net_except (week_url 2025 2) None) 2025 18))
   \<and> fst (load_games (season_net_except (week_url 2025 2) None) 2025 18)
     = fst (load_games (season_net_except (week_url 2025 2) None) 2025 1)"
  using C10_failed_listing_stops_scan
    [of "season_net_except (week_url 2025 2) None" 2025 2 18]
  by (auto simp: season_net_except_def)

subsection \<open>The event of a statistics row\<close>

lemma for_rows_counted_row:
  "fst (for_rows_counted body xs p) = Inr res \<Longrightarrow> r \<in> set (fst res) \<Longrightarrow>
   \<exists>x \<in> set xs. \<exists>p0 res0. fst (body x p0) = Inr res0 \<and> r \<in> set (fst res0)"
proof (induction xs arbitrary: p res)
  case Nil
  then show ?case by auto
next
  case (Cons x xs)
  from Cons.prems(1) obtain r1 rest where
    r1: "fst (body x p) = Inr r1"
    and rest: "fst (for_rows_counted body xs (snd r1)) = Inr rest"
    and res: "res = (fst r1 @ fst rest, snd rest)"
    by (auto simp: fst_bind_Inr)
  from Cons.prems(2) res have "r \<in> set (fst r1) \<or> r \<in> set (fst rest)"
    by auto
  then show ?case
  proof
    assume "r \<in> set (fst r1)"
    moreover have "x \<in> set (x # xs)" by simp
    ultimately show ?thesis using r1 by blast
  next
    assume "r \<in> set (fst rest)"
    from Cons.IH [OF rest this] obtain y p0 res0 where
      "y \<in> set xs" "fst (body y p0) = Inr res0" "r \<in> set (fst res0)"
      by blast
    moreover from this(1) have "y \<in> set (x # xs)" by simp
    ultimately show ?thesis by blast
  qed
qed

lemma stats_row_of_ids:
  "fst (stats_row_of game_id athlete_id lookup) = Inr row \<Longrightarrow>
   Stat_GameID row = game_id \<and> Stat_PlayerID row = athlete_id"
  unfolding stats_row_of_def Let_def
  by (auto simp: fst_bind_Inr)

lemma athletes_loop_game:
  "fst (athletes_loop net game_id seen refs p) = Inr res \<Longrightarrow> r \<in> set (fst res) \<Longrightarrow>
   Stat_GameID r = game_id"
proof (induction net game_id seen refs p arbitrary: res rule: athletes_loop.induct)
  case (1 net game_id seen processed)
  then show ?case by auto
next
  case (2 net game_id seen athlete_id stat_ref refs processed)
  show ?case
  proof (cases "(game_id, athlete_id) \<in> seen")
    case True
    with "2.prems" "2.IH"(1) show ?thesis by simp
  next
    case False
    from "2.prems"(1) False obtain detail where
      detail: "fst (fetch_json net stat_ref) = Inr detail"
      and body: "fst (if \<not> truthy detail
        then athletes_loop net game_id (insert (game_id, athlete_id) seen) refs processed
        else
          bind (stats_lookup detail) (\<lambda>lookup.
          bind (stats_row_of game_id athlete_id lookup) (\<lambda>row.
          bind (if Suc processed mod 50 = 0
                then info (Info_game_stats_rows_built (Suc processed)) else ret ()) (\<lambda>_.
          bind (athletes_loop net game_id (insert (game_id, athlete_id) seen) refs
                  (Suc processed)) (\<lambda>rest.
          ret (row # fst rest, snd rest)))))) = Inr res"
      by (auto simp: fst_bind_Inr)
    show ?thesis
    proof (cases "truthy detail")
      case no: False
      with body have "fst (athletes_loop net game_id (insert (game_id, athlete_id) seen) refs
                         processed) = Inr res"
        by simp
      from "2.IH"(2) False no this "2.prems"(2) show ?thesis by blast
    next
      case yes: True
      with body obtain lookup row u rest where
        lookup: "fst (stats_lookup detail) = Inr lookup"
        and row: "fst (stats_row_of game_id athlete_id lookup) = Inr row"
        and u: "fst (if Suc processed mod 50 = 0
                then info (Info_game_stats_rows_built (Suc processed)) else ret ()) = Inr u"
        and rest: "fst (athletes_loop net game_id (insert (game_id, athlete_id) seen) refs
                  (Suc processed)) = Inr rest"
        and res: "res = (row # fst rest, snd rest)"
        by (auto simp: fst_bind_Inr)
      from "2.prems"(2) res have "r = row \<or> r \<in> set (fst rest)"
        by auto
      then show ?thesis
      proof
        assume "r = row"
        with stats_row_of_ids [OF row] show ?thesis by simp
      next
        assume mem: "r \<in> set (fst rest)"
        from "2.IH"(3) False yes rest mem show ?thesis by blast
      qed
    qed
  qed
qed

lemma returns_case_option:
  "returns P a \<Longrightarrow> (\<And>x. returns P (f x)) \<Longrightarrow>
   returns P (case v of None \<Rightarrow> a | Some x \<Rightarrow> f x)"
  by (cases v) simp_all

lemma athletes_loop_returns:
  "returns (\<lambda>res. \<forall>r \<in> set (fst res). Stat_GameID r = game_id)
     (athletes_loop net game_id seen refs p)"
  unfolding returns_def using athletes_loop_game by blast

lemma competitor_stats_returns:
  "returns (\<lambda>res. \<forall>r \<in> set (fst res). Stat_GameID r = event)
     (competitor_stats net event competition competitor p)"
  unfolding competitor_stats_def
  by (intro returns_bind returns_case_option returns_if athletes_loop_returns) simp_all

lemma competitor_stats_game:
  "fst (competitor_stats net event competition competitor p) = Inr res \<Longrightarrow>
   r \<in> set (fst res) \<Longrightarrow> Stat_GameID r = event"
  using competitor_stats_returns [of event net competition competitor p]
  by (auto simp: returns_def)

lemma not_finished_False:
  "fst (not_finished status) = Inr False \<Longrightarrow>
   \<not> truthy status
   \<or> fst (bind (get status ''type'' (JObj [])) (\<lambda>ty. get ty ''state'' JNull)) = Inr (JStr ''post'')"
  unfolding not_finished_def
  by (auto simp: fst_bind_Inr split: if_splits)

lemma entry_stats_row:
  assumes "fst (entry_stats net entry p) = Inr res" and "r \<in> set (fst res)"
  shows "event_id entry = Some (Stat_GameID r)
       \<and> (\<exists>status. fst (fetch_status net entry) = Inr status
            \<and> fst (not_finished status) = Inr False)"
proof -
  from assms obtain event competition where
    ids: "event_id entry = Some event" "competition_id entry = Some competition"
    by (auto simp: entry_stats_def split: option.splits)
  from assms ids obtain status where
    status: "fst (fetch_status net entry) = Inr status"
    and skip: "fst (not_finished status) = Inr False"
    and rows: "fst (for_rows_counted (competitor_stats net event competition)
                 (competitors entry) p) = Inr res"
    by (auto simp: entry_stats_def fst_bind_Inr split: if_splits)
  from for_rows_counted_row [OF rows assms(2)] obtain c p0 res0 where
    "fst (competitor_stats net event competition c p0) = Inr res0" "r \<in> set (fst res0)"
    by blast
  then have "Stat_GameID r = event"
    by (rule competitor_stats_game)
  with ids status skip show ?thesis by auto
qed

lemma stats_with_status:
  "fst (load_game_stats season_net [entry_401 (JStr ''status'')])
     = Inr (GAME_STATS season_frames)"
  by code_simp

text \<open>
  Claim C2: the game-stats stage emits rows for an event only if its fetched status
  indicates the completed state, and an event whose status reference cannot be fetched
  contributes no rows. The code skips an event only when a status was fetched, is
  truthy and names a state other than \<^verbatim>\<open>post\<close>: with a status request that fails,
  event 401 still gives its rows.
\<close>

theorem C2_unfetched_status_counterexample:
  "fetch_status (season_net_except ''status'' None) (entry_401 (JStr ''status''))
     = (Inr JNull, [Warn_fetch_failed (JStr ''status'')])
   \<and> fst (load_game_stats (season_net_except ''status'' None) [entry_401 (JStr ''status'')])
     = Inr [row_401_77, row_401_77]"
  by code_simp

text \<open>
  Claim C2 as the code has it: every GAME_STATS row belongs to an entry of
  \<^verbatim>\<open>stats_meta\<close> whose status is falsy (no reference, a failed request, an empty
  answer) or has the state \<^verbatim>\<open>post\<close>; an entry whose fetched status names another
  state contributes no row.
\<close>

theorem C2_rows_only_for_unskipped_entries:
  assumes "fst (load_game_stats net meta) = Inr rows" and "r \<in> set rows"
  shows "\<exists>entry \<in> set meta.
           event_id entry = Some (Stat_GameID r)
           \<and> (\<exists>status. fst (fetch_status net entry) = Inr status
                \<and> (\<not> truthy status
                    \<or> fst (bind (get status ''type'' (JObj [])) (\<lambda>ty. get ty ''state'' JNull))
                        = Inr (JStr ''post'')))"
proof -
  from assms(1) obtain res where
    res: "fst (for_rows_counted (entry_stats net) meta 0) = Inr res" and rows: "rows = fst res"
    by (auto simp: load_game_stats_def fst_bind_Inr)
  from for_rows_counted_row [OF res] assms(2) rows obtain entry p0 res0 where
    entry: "entry \<in> set meta" and "fst (entry_stats net entry p0) = Inr res0"
    and "r \<in> set (fst res0)"
    by blast
  from entry_stats_row [OF this(2,3)] not_finished_False entry show ?thesis
    by blast
qed

theorem C2_witness:
  "fst (load_game_stats season_net [entry_401 (JStr ''status'')])
     = Inr (GAME_STATS season_frames)
   \<and> event_id (entry_401 (JStr ''status'')) = Some 401
   \<and> (\<exists>status. fst (fetch_status season_net (entry_401 (JStr ''status''))) = Inr status
        \<and> (\<not> truthy status
            \<or> fst (bind (get status ''type'' (JObj [])) (\<lambda>ty. get ty ''state'' JNull))
                = Inr (JStr ''post'')))"
proof -
  have "hd (GAME_STATS season_frames) \<in> set (GAME_STATS season_frames)"
    by (simp add: season_frames_def)
  from C2_rows_only_for_unskipped_entries [OF stats_with_status this] stats_with_status
  show ?thesis
    by (simp add: season_frames_def row_401_77_def)
qed

subsection \<open>Requests that fail\<close>


















subsection \<open>The statements of the loader\<close>

lemma inserted_append [simp]: "inserted t (xs @ ys) = inserted t xs @ inserted t ys"
  by (induction t xs rule: inserted.induct) simp_all

lemma inserted_insert_rows [simp]:
  "inserted t (insert_rows table cols rows) = (if table = t then rows else [])"
  by (simp add: insert_rows_def)

lemma inserted_truncate_tables [simp]: "inserted t (truncate_tables tables) = []"
  by (induction tables) (simp_all add: truncate_tables_def)

lemma snd_load_csv [simp]: "snd (load_csv to_datetime fs path cols) = []"
  by (simp add: load_csv_def Let_def split: option.split)

lemma load_csv_row_length:
  "fst (load_csv to_datetime fs path cols) = Inr rows \<Longrightarrow> r \<in> set rows \<Longrightarrow>
   length r = length cols"
  by (auto simp: load_csv_def Let_def split: option.splits if_splits)

lemma ids_of_rows:
  "\<forall>r \<in> set rows. r \<noteq> [] \<Longrightarrow> ids_of rows = (\<lambda>r. r ! 0) ` set rows - {CNull}"
  by (auto simp: ids_of_def)

lemma ids_of_subset: "ids_of rows \<subseteq> (\<lambda>r. r ! 0) ` set rows"
  by (auto simp: ids_of_def)

lemma load_csv_pair:
  "fst (load_csv to_datetime fs path cols) = Inr rows \<Longrightarrow>
   load_csv to_datetime fs path cols = (Inr rows, [])"
  by (simp add: prod_eq_iff)

lemma example_files_load:
  "\<forall>tc \<in> set TABLE_ORDER.
     fst (load_csv parse_date example_files
            (path_join (csv_dir example_args) (fst tc @ ''.csv'')) (snd tc))
       = Inr (example_rows (fst tc))"
  by code_simp

lemma example_stats_kept:
  "filter (\<lambda>r. r ! 0 \<in> ids_of (example_rows ''GAME'') \<and> r ! 1 \<in> ids_of (example_rows ''PLAYER''))
     (example_rows ''GAME_STATS'')
   = [[CInt 401, CInt 77, CInt 300, CInt 0, CInt 0, CInt 3, CInt 0, CInt 0]]
   \<and> length (example_rows ''GAME_STATS'') = 3"
  by code_simp

text \<open>
  Claim C4: every GAME_STATS row that reaches the insert step has its GameID among the
  game ids and its PlayerID among the player ids inserted in the same run; rows with an
  absent parent are left out, their number is printed, and leaving them out is never
  fatal. With credentials and five readable files that have their columns, the loader
  returns, inserts the PLAYER and GAME rows as read and of GAME_STATS exactly the rows
  whose two ids are in the sets built from them, and prints the number of rows skipped
  whenever there are any.
\<close>

theorem C4_stats_rows_have_parents:
  assumes creds: "\<not> falsy_str (arg_or_env (user a) (getenv ''ORACLE_USER''))"
      "\<not> falsy_str (arg_or_env (password a) (getenv ''ORACLE_PASSWORD''))"
      "\<not> falsy_str (arg_or_env (dsn a) (getenv ''ORACLE_DSN''))"
    and files: "\<forall>tc \<in> set TABLE_ORDER.
      fst (load_csv to_datetime fs (path_join (csv_dir a) (fst tc @ ''.csv'')) (snd tc))
        = Inr (rows_of (fst tc))"
  shows "\<exists>stmts out.
     loader_main getenv to_datetime fs a = (Inr stmts, out)
     \<and> inserted ''PLAYER'' stmts = rows_of ''PLAYER''
     \<and> inserted ''GAME'' stmts = rows_of ''GAME''
     \<and> inserted ''GAME_STATS'' stmts
         = filter (\<lambda>r. r ! 0 \<in> ids_of (rows_of ''GAME'') \<and> r ! 1 \<in> ids_of (rows_of ''PLAYER''))
             (rows_of ''GAME_STATS'')
     \<and> (\<forall>r \<in> set (inserted ''GAME_STATS'' stmts).
           r ! 0 \<in> (\<lambda>g. g ! 0) ` set (inserted ''GAME'' stmts)
           \<and> r ! 1 \<in> (\<lambda>p. p ! 0) ` set (inserted ''PLAYER'' stmts))
     \<and> (length (inserted ''GAME_STATS'' stmts) \<noteq> length (rows_of ''GAME_STATS'') \<longrightarrow>
           Load_skipped (length (rows_of ''GAME_STATS'') - length (inserted ''GAME_STATS'' stmts))
             \<in> set out)"
proof -
  note csv = files [unfolded TABLE_ORDER_def, simplified, THEN conjunct1, THEN load_csv_pair]
    files [unfolded TABLE_ORDER_def, simplified, THEN conjunct2, THEN conjunct1, THEN load_csv_pair]
    files [unfolded TABLE_ORDER_def, simplified, THEN conjunct2, THEN conjunct2, THEN conjunct1,
           THEN load_csv_pair]
    files [unfolded TABLE_ORDER_def, simplified, THEN conjunct2, THEN conjunct2, THEN conjunct2,
           THEN conjunct1, THEN load_csv_pair]
    files [unfolded TABLE_ORDER_def, simplified, THEN conjunct2, THEN conjunct2, THEN conjunct2,
           THEN conjunct2, THEN load_csv_pair]
  have parents: "r ! 0 \<in> (\<lambda>g. g ! 0) ` set (rows_of ''GAME'')
      \<and> r ! 1 \<in> (\<lambda>p. p ! 0) ` set (rows_of ''PLAYER'')"
    if "r ! 0 \<in> ids_of (rows_of ''GAME'')" "r ! 1 \<in> ids_of (rows_of ''PLAYER'')" for r
    using that ids_of_subset by blast
  show ?thesis
    using creds parents
    by (simp add: loader_main_def TABLE_ORDER_def load_table_def bind_def info_def ret_def
          Let_def csv)
qed

theorem C4_witness:
  "\<exists>stmts out.
     loader_main empty_env parse_date example_files example_args = (Inr stmts, out)
     \<and> inserted ''GAME_STATS'' stmts
         = [[CInt 401, CInt 77, CInt 300, CInt 0, CInt 0, CInt 3, CInt 0, CInt 0]]
     \<and> Load_skipped 2 \<in> set out"
proof -
  have creds:
    "\<not> falsy_str (arg_or_env (user example_args) (empty_env ''ORACLE_USER''))"
    "\<not> falsy_str (arg_or_env (password example_args) (empty_env ''ORACLE_PASSWORD''))"
    "\<not> falsy_str (arg_or_env (dsn example_args) (empty_env ''ORACLE_DSN''))"
    by (simp_all add: falsy_str_def arg_or_env_def example_args_def empty_env_def)
  from C4_stats_rows_have_parents [OF creds example_files_load]
  obtain stmts out where
    run: "loader_main empty_env parse_date example_files example_args = (Inr stmts, out)"
    and kept: "inserted ''GAME_STATS'' stmts
         = filter (\<lambda>r. r ! 0 \<in> ids_of (example_rows ''GAME'')
                      \<and> r ! 1 \<in> ids_of (example_rows ''PLAYER''))
             (example_rows ''GAME_STATS'')"
    and logged: "length (inserted ''GAME_STATS'' stmts) \<noteq> length (example_rows ''GAME_STATS'') \<longrightarrow>
           Load_skipped (length (example_rows ''GAME_STATS'') - length (inserted ''GAME_STATS'' stmts))
             \<in> set out"
    by blast
  from kept example_stats_kept have rows: "inserted ''GAME_STATS'' stmts
         = [[CInt 401, CInt 77, CInt 300, CInt 0, CInt 0, CInt 3, CInt 0, CInt 0]]"
    by simp
  with logged example_stats_kept have "Load_skipped 2 \<in> set out"
    by simp
  with run rows show ?thesis by blast
qed

end
